theory Spec2Isabelle
  imports Complex_Main "HOL-Library.Word"
begin

section \<open>The reload orchestrator of the ingress controller's data plane\<close>

text \<open>
  This theory embeds \<open>fullReconfiguration\<close>, \<open>configFromTemplate\<close> and
  \<open>updateConfiguration\<close> of package \<open>dataplane\<close> (the second document of
  \<open>src/test/e2e/annotations/modsecurity.go\<close>, lines 302 to 505) and the fields of
  \<open>TemplateConfig\<close> they read (\<open>src/internal/ingress/controller/config/config.go\<close>).

  The functions are stateful. The model threads two pieces of state explicitly:
  the orchestrator \<open>n\<close> (its stored \<open>templateConfig\<close> pointer and its settings), and a
  \<open>world\<close> that holds the files written through \<open>os.WriteFile\<close> and the ordered trace
  of every call made to a collaborator (lock, metrics, event channel, certificate store, proxy
  commands, dynamic pushes, sleeps). The map \<open>files\<close> follows only what these functions write
  themselves, the live configuration file \<open>cfgPath\<close> among it; what the certificate store, the
  DH parameter writer and \<open>createOpentracingCfg\<close> write to their own files shows as their
  events in the trace. Functions of other packages that the sources only call
  are parameters, collected in the record \<open>env\<close>: each is a function of its arguments, so a
  theorem that quantifies over \<open>env\<close> holds for whatever those functions answer.
  Log lines (\<open>klog\<close>) write no state of the program and are left out, except that their
  arguments are still evaluated (which is where a nil pointer faults).
\<close>

subsection \<open>Data\<close>

text \<open>A Go \<open>error\<close> value, identified with the text that \<open>%v\<close> prints for it.\<close>

datatype error = Error string

fun error_text :: "error \<Rightarrow> string" where
  "error_text (Error s) = s"

text \<open>
  \<open>ingress.Backend\<close>, \<open>ingress.Server\<close> and \<open>ingress.L4Service\<close> are declared outside the
  sources at hand and are only passed along here; each is represented by the field that names
  it (the backend's name, the server's hostname, the service's port).
\<close>

datatype Backend = Backend string
datatype Server = Server string
datatype L4Service = L4Service int

text \<open>\<open>ingress.SSLCert\<close>: the two fields that \<open>fullReconfiguration\<close> reads.\<close>

record SSLCert =
  Name :: string
  PemSHA :: string

text \<open>\<open>config.Configuration\<close> (config.go, line 93): the fields read or written here.\<close>

record config_Configuration =
  Checksum :: string
  SSLDHParam :: string
  Resolver :: "string list"
  DisableIpv6DNS :: bool

text \<open>
  \<open>config.TemplateConfig\<close> (config.go, line 951). \<open>DefaultSSLCertificate\<close> is a pointer
  (\<open>None\<close> is nil), \<open>DHParamContent\<close> a byte slice (\<open>None\<close> is the nil slice), and
  \<open>GeneratedTime\<close> an \<open>int64\<close> that is only ever compared.
\<close>

record TemplateConfig =
  DefaultSSLCertificate :: "SSLCert option"
  BacklogSize :: int
  Backends :: "Backend list"
  Servers :: "Server list"
  TCPBackends :: "L4Service list"
  UDPBackends :: "L4Service list"
  Cfg :: config_Configuration
  GeneratedTime :: int
  DHParamFile :: string
  DHParamContent :: "string option"

text \<open>
  \<open>ingress.Configuration\<close>, as \<open>configFromTemplate\<close> fills it. Its field names carry the
  prefix \<open>ic_\<close> where \<open>TemplateConfig\<close> already uses the name.
\<close>

record ingress_Configuration =
  ic_Backends :: "Backend list"
  ic_Servers :: "Server list"
  TCPEndpoints :: "L4Service list"
  UDPEndpoints :: "L4Service list"
  ConfigurationChecksum :: string

record EventMessage =
  event_type :: string
  event_reason :: string
  event_message :: string

text \<open>\<open>wait.Backoff\<close>. Durations are in seconds; \<open>float64\<close> values are rationals.\<close>

record Backoff =
  Steps :: "64 word"
  Duration :: rat
  Factor :: rat
  Jitter :: rat

text \<open>Every call that leaves the function, in the order it is made.\<close>

datatype event =
    EvLock
  | EvUnlock
  | EvSetSSLExpireTime "Server list"
  | EvSetSSLInfo "Server list"
  | EvStoreSSLCertOnDisk string SSLCert "error option"
  | EvAddOrUpdateDHParam string string "error option"
  | EvCreateOpentracingCfg "error option"
  | EvRender TemplateConfig
  | EvTestTemplate string "error option"
  | EvCreateTemp
  | EvWriteFile string string "error option"
  | EvDiff string string
  | EvRemove string
  | EvReload string "error option"
  | EvIncReloadErrorCount
  | EvConfigSuccess "64 word" bool
  | EvIncReloadCount
  | EvEventCh EventMessage
  | EvSleep rat
  | EvConfigureDynamically nat ingress_Configuration ingress_Configuration "error option"
  | EvRemoveMetrics "string list" "string list" "string list"

record world =
  files :: "string \<rightharpoonup> string"
  trace :: "event list"
  pushes :: nat

text \<open>
  The orchestrator: \<open>n.templateConfig\<close> (a pointer, \<open>None\<close> is nil),
  \<open>n.cfg.DynamicConfigurationRetries\<close> (a Go \<open>int\<close>, 64 bits wide) and \<open>n.resolver\<close>.
\<close>

record NGINXConfigurer =
  templateConfig :: "TemplateConfig option"
  DynamicConfigurationRetries :: "64 word"
  resolver :: "string list"

text \<open>
  What the sources call but do not define. \<open>Sprintf_uint64\<close> is \<open>fmt.Sprintf("%v", hash)\<close>
  of line 362. \<open>ConfigureDynamically\<close> takes the number of pushes
  made before it, so that successive attempts may answer differently; \<open>rand_Float64\<close> is the
  random source of the backoff's jitter; \<open>write_fault\<close> says whether a write through
  \<open>os.WriteFile\<close> fails and what the file holds afterwards if it does.
\<close>

record env =
  cfgPath :: string
  FakeCertificateName :: string
  StoreSSLCertOnDisk :: "string \<Rightarrow> SSLCert \<Rightarrow> error option"
  AddOrUpdateDHParam :: "string \<Rightarrow> string \<Rightarrow> error option"
  IsDynamicConfigurationEnough :: "ingress_Configuration \<Rightarrow> ingress_Configuration \<Rightarrow> bool"
  hashstructure_Hash :: "ingress_Configuration \<Rightarrow> 64 word"
  Sprintf_uint64 :: "64 word \<Rightarrow> string"
  Configuration_Equal :: "ingress_Configuration \<Rightarrow> ingress_Configuration \<Rightarrow> bool"
  ConfigureDynamically :: "nat \<Rightarrow> ingress_Configuration \<Rightarrow> ingress_Configuration \<Rightarrow> error option"
  rand_Float64 :: "nat \<Rightarrow> rat"
  GetRemovedIngresses :: "ingress_Configuration \<Rightarrow> ingress_Configuration \<Rightarrow> string list"
  GetRemovedHosts :: "ingress_Configuration \<Rightarrow> ingress_Configuration \<Rightarrow> string list"
  GetRemovedCertificateSerialNumbers :: "ingress_Configuration \<Rightarrow> ingress_Configuration \<Rightarrow> string list"
  createOpentracingCfg :: "config_Configuration \<Rightarrow> error option"
  SysctlSomaxconn :: int
  IsIPv6Enabled :: bool
  t_Write :: "TemplateConfig \<Rightarrow> error + string"
  testTemplate :: "string \<Rightarrow> error option"
  klog_V2_Enabled :: bool
  os_CreateTemp :: "error + string"
  write_fault :: "string \<Rightarrow> string \<Rightarrow> (error \<times> string option) option"
  reload_CombinedOutput :: "string \<times> error option"

text \<open>How a call of \<open>fullReconfiguration\<close> ends: it returns, or a nil pointer is dereferenced.\<close>

datatype outcome = Returned | Panicked

subsection \<open>Helpers\<close>

definition emit :: "event \<Rightarrow> world \<Rightarrow> world" where
  "emit e w = w\<lparr>trace := trace w @ [e]\<rparr>"

text \<open>The events a call added to the trace.\<close>

definition new_events :: "world \<Rightarrow> world \<Rightarrow> event list" where
  "new_events w w' = drop (length (trace w)) (trace w')"

text \<open>
  \<open>os.WriteFile\<close>: on success the file holds the data; on failure it holds whatever the
  fault left (nothing, or a truncated file).
\<close>

definition os_WriteFile :: "env \<Rightarrow> string \<Rightarrow> string \<Rightarrow> world \<Rightarrow> error option \<times> world" where
  "os_WriteFile env path content w =
     (case write_fault env path content of
        None \<Rightarrow> (None, emit (EvWriteFile path content None) (w\<lparr>files := (files w)(path \<mapsto> content)\<rparr>))
      | Some (err, residue) \<Rightarrow>
          (Some err, emit (EvWriteFile path content (Some err)) (w\<lparr>files := (files w)(path := residue)\<rparr>)))"

text \<open>\<open>apiv1.EventTypeWarning\<close>, \<open>apiv1.EventTypeNormal\<close> and \<open>newEventMessage\<close>.\<close>

definition EventTypeWarning :: string where
  "EventTypeWarning = ''Warning''"

definition EventTypeNormal :: string where
  "EventTypeNormal = ''Normal''"

definition newEventMessage :: "string \<Rightarrow> string \<Rightarrow> string \<Rightarrow> EventMessage" where
  "newEventMessage ty reason msg = \<lparr>event_type = ty, event_reason = reason, event_message = msg\<rparr>"

subsection \<open>configFromTemplate (lines 429 to 440)\<close>

definition empty_Configuration :: ingress_Configuration where
  "empty_Configuration =
     \<lparr>ic_Backends = [], ic_Servers = [], TCPEndpoints = [], UDPEndpoints = [], ConfigurationChecksum = []\<rparr>"

definition configFromTemplate :: "TemplateConfig option \<Rightarrow> ingress_Configuration" where
  "configFromTemplate tmpl =
     (case tmpl of
        None \<Rightarrow> empty_Configuration
      | Some t \<Rightarrow>
          \<lparr>ic_Backends = Backends t, ic_Servers = Servers t,
           TCPEndpoints = TCPBackends t, UDPEndpoints = UDPBackends t,
           ConfigurationChecksum = []\<rparr>)"

subsection \<open>updateConfiguration (lines 442 to 505)\<close>

text \<open>
  The block under \<open>klog.V(2).Enabled()\<close> (lines 463 to 492): it compares the live file with
  the new content and, when they differ, writes the content to a temporary file, runs
  \<open>diff\<close> and removes the file. \<open>os.ReadFile\<close> of a missing file gives the empty content.
\<close>

definition logConfigurationDiff :: "env \<Rightarrow> string \<Rightarrow> world \<Rightarrow> error option \<times> world" where
  "logConfigurationDiff env content w =
     (if klog_V2_Enabled env then
        (let src = (case files w (cfgPath env) of None \<Rightarrow> [] | Some s \<Rightarrow> s) in
         if src \<noteq> content then
           (case os_CreateTemp env of
              Inl err \<Rightarrow> (Some err, emit EvCreateTemp w)
            | Inr tmpfile \<Rightarrow>
                (case os_WriteFile env tmpfile content (emit EvCreateTemp w) of
                   (Some err, w1) \<Rightarrow> (Some err, w1)
                 | (None, w1) \<Rightarrow>
                     (let w2 = emit (EvDiff (cfgPath env) tmpfile) w1;
                          w3 = emit (EvRemove tmpfile) (w2\<lparr>files := (files w2)(tmpfile := None)\<rparr>)
                      in (None, w3))))
         else (None, w))
      else (None, w))"

text \<open>\<open>fmt.Errorf("%v\n%v", err, string(o))\<close>; character 10 is the line feed.\<close>

definition reload_error :: "error \<Rightarrow> string \<Rightarrow> error" where
  "reload_error err out = Error (error_text err @ [char_of (10::nat)] @ out)"

text \<open>Lines 448 to 451: the four fields set in \<open>*cfg\<close> before it is rendered.\<close>

definition withRuntimeSettings :: "env \<Rightarrow> NGINXConfigurer \<Rightarrow> TemplateConfig \<Rightarrow> TemplateConfig" where
  "withRuntimeSettings env n cfg =
     (let cfg1 = cfg\<lparr>Cfg := (Cfg cfg)\<lparr>SSLDHParam := DHParamFile cfg\<rparr>\<rparr>;
          cfg2 = cfg1\<lparr>BacklogSize := SysctlSomaxconn env\<rparr>;
          cfg3 = cfg2\<lparr>Cfg := (Cfg cfg2)\<lparr>Resolver := resolver n\<rparr>\<rparr>
      in cfg3\<lparr>Cfg := (Cfg cfg3)\<lparr>DisableIpv6DNS := \<not> IsIPv6Enabled env\<rparr>\<rparr>)"

text \<open>
  The function returns its error and leaves the fields it set in \<open>*cfg\<close>; the model returns
  the updated \<open>cfg\<close> as well.
\<close>

definition updateConfiguration ::
  "env \<Rightarrow> NGINXConfigurer \<Rightarrow> TemplateConfig \<Rightarrow> world \<Rightarrow> error option \<times> TemplateConfig \<times> world" where
  "updateConfiguration env n cfg w =
     (case createOpentracingCfg env (Cfg cfg) of
        Some err \<Rightarrow> (Some err, cfg, emit (EvCreateOpentracingCfg (Some err)) w)
      | None \<Rightarrow>
          (let cfg4 = withRuntimeSettings env n cfg;
               w1 = emit (EvRender cfg4) (emit (EvCreateOpentracingCfg None) w)
           in case t_Write env cfg4 of
                Inl err \<Rightarrow> (Some err, cfg4, w1)
              | Inr content \<Rightarrow>
                  (case testTemplate env content of
                     Some err \<Rightarrow> (Some err, cfg4, emit (EvTestTemplate content (Some err)) w1)
                   | None \<Rightarrow>
                       (case logConfigurationDiff env content (emit (EvTestTemplate content None) w1) of
                          (Some err, w2) \<Rightarrow> (Some err, cfg4, w2)
                        | (None, w2) \<Rightarrow>
                            (case os_WriteFile env (cfgPath env) content w2 of
                               (Some err, w3) \<Rightarrow> (Some err, cfg4, w3)
                             | (None, w3) \<Rightarrow>
                                 (case reload_CombinedOutput env of
                                    (out, Some err) \<Rightarrow>
                                      (Some (reload_error err out), cfg4, emit (EvReload out (Some err)) w3)
                                  | (out, None) \<Rightarrow>
                                      (None, cfg4, emit (EvReload out None) w3)))))))"

subsection \<open>The polling helper\<close>

text \<open>
  Modelled from the spec: \<open>wait.ExponentialBackoff\<close> and \<open>wait.Backoff.Step\<close> belong to the
  library \<open>k8s.io/apimachinery\<close> and are not among the sources. Sections 4.2 and 9 of the
  specification describe them: an explicit loop of at most \<open>Steps\<close> attempts, ended by the first
  attempt that accepts or that returns an error, with a sleep between two attempts whose length
  starts at \<open>Duration\<close>, is multiplied by \<open>Factor\<close> after each sleep, and is lengthened by a
  random share of at most \<open>Jitter\<close> times itself; a loop that runs out of attempts reports the
  library's timeout error. The first argument of \<open>ExponentialBackoff_steps\<close> is the number of
  attempts left, the second the current base delay.
\<close>

definition ErrWaitTimeout :: error where
  "ErrWaitTimeout = Error ''timed out waiting for the condition''"

definition jittered :: "Backoff \<Rightarrow> rat \<Rightarrow> rat \<Rightarrow> rat" where
  "jittered b r d = (if 0 < Jitter b then d + r * Jitter b * d else d)"

primrec ExponentialBackoff_steps ::
  "nat \<Rightarrow> rat \<Rightarrow> Backoff \<Rightarrow> (nat \<Rightarrow> rat) \<Rightarrow> ('s \<Rightarrow> (bool \<times> error option) \<times> 's) \<Rightarrow>
   (rat \<Rightarrow> 's \<Rightarrow> 's) \<Rightarrow> 's \<Rightarrow> error option \<times> 's" where
  "ExponentialBackoff_steps 0 d b rnd condition sleep s = (Some ErrWaitTimeout, s)"
| "ExponentialBackoff_steps (Suc m) d b rnd condition sleep s =
     (case condition s of
        ((ok, Some err), s') \<Rightarrow> (Some err, s')
      | ((True, None), s') \<Rightarrow> (None, s')
      | ((False, None), s') \<Rightarrow>
          (if m = 0 then (Some ErrWaitTimeout, s')
           else ExponentialBackoff_steps m (d * Factor b) b rnd condition sleep
                  (sleep (jittered b (rnd m) d) s')))"

definition ExponentialBackoff ::
  "Backoff \<Rightarrow> (nat \<Rightarrow> rat) \<Rightarrow> ('s \<Rightarrow> (bool \<times> error option) \<times> 's) \<Rightarrow> (rat \<Rightarrow> 's \<Rightarrow> 's) \<Rightarrow> 's \<Rightarrow>
   error option \<times> 's" where
  "ExponentialBackoff b rnd condition sleep s =
     ExponentialBackoff_steps (nat (sint (Steps b))) (Duration b) b rnd condition sleep s"

subsection \<open>fullReconfiguration (lines 306 to 425)\<close>

text \<open>
  Lines 326 to 337: the default certificate is handed to the certificate store when the new
  snapshot has one and the stored snapshot has none or one with another \<open>PemSHA\<close>. The result is
  the store's error, if any.
\<close>

definition storeDefaultCertificate :: "env \<Rightarrow> TemplateConfig \<Rightarrow> TemplateConfig \<Rightarrow> world \<Rightarrow> error option \<times> world" where
  "storeDefaultCertificate env old cfg w =
     (case DefaultSSLCertificate cfg of
        None \<Rightarrow> (None, w)
      | Some cert \<Rightarrow>
          (if (case DefaultSSLCertificate old of None \<Rightarrow> True | Some oldcert \<Rightarrow> PemSHA oldcert \<noteq> PemSHA cert)
           then (let name = (if Name cert = [] then FakeCertificateName env else Name cert);
                     r = StoreSSLCertOnDisk env name cert
                 in (r, emit (EvStoreSSLCertOnDisk name cert r) w))
           else (None, w)))"

text \<open>Lines 339 to 344.\<close>

definition storeDHParam :: "env \<Rightarrow> TemplateConfig \<Rightarrow> world \<Rightarrow> error option \<times> world" where
  "storeDHParam env cfg w =
     (case (DHParamFile cfg \<noteq> [], DHParamContent cfg) of
        (True, Some content) \<Rightarrow>
          (let r = AddOrUpdateDHParam env (DHParamFile cfg) content
           in (r, emit (EvAddOrUpdateDHParam (DHParamFile cfg) content r) w))
      | _ \<Rightarrow> (None, w))"

text \<open>
  The closure given to \<open>wait.ExponentialBackoff\<close> (lines 397 to 410). Its state is the captured
  \<open>retriesRemaining\<close> and the world.
\<close>

definition pushAttempt ::
  "env \<Rightarrow> ingress_Configuration \<Rightarrow> ingress_Configuration \<Rightarrow> 64 word \<times> world \<Rightarrow>
   (bool \<times> error option) \<times> (64 word \<times> world)" where
  "pushAttempt env newcfg oldcfg s =
     (case s of (retriesRemaining, w) \<Rightarrow>
        (let r = ConfigureDynamically env (pushes w) newcfg oldcfg;
             w1 = emit (EvConfigureDynamically (pushes w) newcfg oldcfg r) (w\<lparr>pushes := Suc (pushes w)\<rparr>)
         in case r of
              None \<Rightarrow> ((True, None), (retriesRemaining, w1))
            | Some err \<Rightarrow>
                (let rr = retriesRemaining - 1
                 in if 0 < sint rr then ((False, None), (rr, w1))
                    else ((False, Some err), (rr, w1)))))"

definition sleepFor :: "rat \<Rightarrow> 64 word \<times> world \<Rightarrow> 64 word \<times> world" where
  "sleepFor d s = (case s of (retriesRemaining, w) \<Rightarrow> (retriesRemaining, emit (EvSleep d) w))"

text \<open>The backoff of lines 389 to 394.\<close>

definition retry :: "NGINXConfigurer \<Rightarrow> Backoff" where
  "retry n = \<lparr>Steps = 1 + DynamicConfigurationRetries n, Duration = 1, Factor = 13 / 10, Jitter = 1 / 10\<rparr>"

text \<open>Lines 396 to 410: the dynamic push with its retries. The result is the error of line 411.\<close>

definition pushDynamically ::
  "env \<Rightarrow> NGINXConfigurer \<Rightarrow> ingress_Configuration \<Rightarrow> ingress_Configuration \<Rightarrow> world \<Rightarrow> error option \<times> world" where
  "pushDynamically env n newcfg oldcfg w =
     (case ExponentialBackoff (retry n) (rand_Float64 env) (pushAttempt env newcfg oldcfg) sleepFor
             (Steps (retry n), w) of
        (err, (retriesRemaining, w')) \<Rightarrow> (err, w'))"

text \<open>
  The texts of the two events that report a failure:
  \<open>fmt.Sprintf("Error reloading NGINX: %v", err)\<close> (line 369) and
  \<open>fmt.Sprintf("Unexpected failure reconfiguring NGINX:\n%v", err)\<close> (line 413).
\<close>

definition reloadErrorMessage :: "error \<Rightarrow> string" where
  "reloadErrorMessage err = ''Error reloading NGINX: '' @ error_text err"

definition reconfigureErrorMessage :: "error \<Rightarrow> string" where
  "reconfigureErrorMessage err =
     ''Unexpected failure reconfiguring NGINX:'' @ [char_of (10::nat)] @ error_text err"

text \<open>
  Lines 381 to 424: the settle delay of the first sync, the dynamic push, and either the error
  event or the metric cleanup and the update of \<open>n.templateConfig\<close>. \<open>cfg\<close> is the snapshot as
  \<open>updateConfiguration\<close> may have left it.
\<close>

definition finishReconfiguration ::
  "env \<Rightarrow> NGINXConfigurer \<Rightarrow> TemplateConfig \<Rightarrow> ingress_Configuration \<Rightarrow> ingress_Configuration \<Rightarrow> world \<Rightarrow>
   NGINXConfigurer \<times> world" where
  "finishReconfiguration env n cfg newcfg oldcfg w =
     (let isFirstSync = Configuration_Equal env oldcfg empty_Configuration;
          w1 = (if isFirstSync then emit (EvSleep 1) w else w)
      in case pushDynamically env n newcfg oldcfg w1 of
           (Some err, w2) \<Rightarrow>
             (n, emit (EvEventCh (newEventMessage ''Error'' ''RELOAD'' (reconfigureErrorMessage err))) w2)
         | (None, w2) \<Rightarrow>
             (let ri = GetRemovedIngresses env oldcfg newcfg;
                  re = GetRemovedHosts env oldcfg newcfg;
                  rc = GetRemovedCertificateSerialNumbers env oldcfg newcfg
              in (n\<lparr>templateConfig := Some cfg\<rparr>, emit (EvRemoveMetrics ri re rc) w2)))"

text \<open>
  Lines 346 to 355: the condition under which the backend is reloaded. Line 347 asks whether
  \<open>n.templateConfig\<close> is nil before it reads the stored checksum.
\<close>

definition reloadRequired ::
  "env \<Rightarrow> NGINXConfigurer \<Rightarrow> TemplateConfig \<Rightarrow> ingress_Configuration \<Rightarrow> ingress_Configuration \<Rightarrow> bool" where
  "reloadRequired env n cfg newcfg oldcfg =
     (let configMapChange =
            (case templateConfig n of
               None \<Rightarrow> False
             | Some t \<Rightarrow> Checksum (Cfg t) \<noteq> Checksum (Cfg cfg))
      in configMapChange \<or> \<not> IsDynamicConfigurationEnough env newcfg oldcfg)"

text \<open>
  Lines 323 to 324 and 355 to 379, followed by the rest of the function: when a reload is
  required, the configuration is rendered, tested, written and the proxy reloaded by
  \<open>updateConfiguration\<close>.
\<close>

definition reloadAndFinish ::
  "env \<Rightarrow> NGINXConfigurer \<Rightarrow> TemplateConfig \<Rightarrow> world \<Rightarrow> NGINXConfigurer \<times> world" where
  "reloadAndFinish env n cfg w =
     (let newcfg = configFromTemplate (Some cfg);
          oldcfg = configFromTemplate (templateConfig n)
      in if reloadRequired env n cfg newcfg oldcfg then
           (let hash = hashstructure_Hash env newcfg;
                newcfg1 = newcfg\<lparr>ConfigurationChecksum := Sprintf_uint64 env hash\<rparr>
            in case updateConfiguration env n cfg w of
                 (Some err, cfg1, w1) \<Rightarrow>
                   (n, emit (EvEventCh (newEventMessage EventTypeWarning ''RELOAD'' (reloadErrorMessage err)))
                         (emit (EvConfigSuccess hash False) (emit EvIncReloadErrorCount w1)))
               | (None, cfg1, w1) \<Rightarrow>
                   finishReconfiguration env n cfg1 newcfg1 oldcfg
                     (emit (EvEventCh (newEventMessage EventTypeNormal ''RELOAD''
                              ''NGINX reload triggered due to a change in configuration''))
                        (emit EvIncReloadCount (emit (EvConfigSuccess hash True) w1))))
         else finishReconfiguration env n cfg newcfg oldcfg w)"

text \<open>
  The body under the lock (lines 311 to 425). \<open>cfg\<close> is a pointer: \<open>None\<close> is nil, and
  \<open>cfg.Servers\<close> at line 311 faults on it. The log line 314 reads
  \<open>n.templateConfig.GeneratedTime\<close> and faults when \<open>n.templateConfig\<close> is nil, before the
  comparison of line 316 is reached.
\<close>

definition fullReconfiguration_locked ::
  "env \<Rightarrow> NGINXConfigurer \<Rightarrow> TemplateConfig option \<Rightarrow> world \<Rightarrow> outcome \<times> NGINXConfigurer \<times> world" where
  "fullReconfiguration_locked env n cfgp w =
     (case cfgp of
        None \<Rightarrow> (Panicked, n, w)
      | Some cfg \<Rightarrow>
          (let w1 = emit (EvSetSSLInfo (Servers cfg)) (emit (EvSetSSLExpireTime (Servers cfg)) w)
           in case templateConfig n of
                None \<Rightarrow> (Panicked, n, w1)
              | Some old \<Rightarrow>
                  (if GeneratedTime old \<ge> GeneratedTime cfg then (Returned, n, w1)
                   else
                     (case storeDefaultCertificate env old cfg w1 of
                        (Some err, w2) \<Rightarrow> (Returned, n, w2)
                      | (None, w2) \<Rightarrow>
                          (case storeDHParam env cfg w2 of
                             (Some err, w3) \<Rightarrow> (Returned, n, w3)
                           | (None, w3) \<Rightarrow>
                               (case reloadAndFinish env n cfg w3 of
                                  (n', w4) \<Rightarrow> (Returned, n', w4)))))))"

text \<open>
  \<open>fullReconfiguration\<close>: the lock is taken first; the deferred unlock runs on every way out,
  a panic included.
\<close>

definition fullReconfiguration ::
  "env \<Rightarrow> NGINXConfigurer \<Rightarrow> TemplateConfig option \<Rightarrow> world \<Rightarrow> outcome \<times> NGINXConfigurer \<times> world" where
  "fullReconfiguration env n cfgp w =
     (case fullReconfiguration_locked env n cfgp (emit EvLock w) of
        (r, n', w') \<Rightarrow> (r, n', emit EvUnlock w'))"

text \<open>\<open>syncIngress\<close> (lines 302 to 304).\<close>

definition syncIngress ::
  "env \<Rightarrow> NGINXConfigurer \<Rightarrow> TemplateConfig option \<Rightarrow> world \<Rightarrow> outcome \<times> NGINXConfigurer \<times> world" where
  "syncIngress env n cfgp w = fullReconfiguration env n cfgp w"

subsection \<open>Vocabulary of the proofs\<close>

text \<open>
  \<open>adds P w w'\<close>: the trace of \<open>w'\<close> is the trace of \<open>w\<close> followed by events that all satisfy
  \<open>P\<close>. \<open>keeps f P w w'\<close> says the same and, when \<open>f\<close> holds, that no file changed.
\<close>

definition adds :: "(event \<Rightarrow> bool) \<Rightarrow> world \<Rightarrow> world \<Rightarrow> bool" where
  "adds P w w' \<longleftrightarrow> (\<exists>es. trace w' = trace w @ es \<and> list_all P es)"

definition keeps :: "bool \<Rightarrow> (event \<Rightarrow> bool) \<Rightarrow> world \<Rightarrow> world \<Rightarrow> bool" where
  "keeps f P w w' \<longleftrightarrow> (f \<longrightarrow> files w' = files w) \<and> adds P w w'"

text \<open>
  Classes of events, by the part of \<open>fullReconfiguration\<close> that makes them: the dynamic push
  (\<open>push_event\<close>), everything after \<open>updateConfiguration\<close> (\<open>after_event\<close>), the lock, the
  certificate metrics and the DH parameters (\<open>before_event\<close>), \<open>updateConfiguration\<close> itself
  (\<open>update_event\<close>) and the certificate store (\<open>store_event\<close>).
\<close>

fun push_event :: "event \<Rightarrow> bool" where
  "push_event (EvSleep d) = True"
| "push_event (EvConfigureDynamically i a b r) = True"
| "push_event _ = False"

fun after_event :: "event \<Rightarrow> bool" where
  "after_event (EvSleep d) = True"
| "after_event (EvConfigureDynamically i a b r) = True"
| "after_event (EvEventCh m) = True"
| "after_event (EvRemoveMetrics ri re rc) = True"
| "after_event EvIncReloadErrorCount = True"
| "after_event (EvConfigSuccess h b) = True"
| "after_event EvIncReloadCount = True"
| "after_event _ = False"

fun before_event :: "event \<Rightarrow> bool" where
  "before_event EvLock = True"
| "before_event EvUnlock = True"
| "before_event (EvSetSSLExpireTime s) = True"
| "before_event (EvSetSSLInfo s) = True"
| "before_event (EvAddOrUpdateDHParam f c r) = True"
| "before_event _ = False"

fun update_event :: "event \<Rightarrow> bool" where
  "update_event (EvCreateOpentracingCfg r) = True"
| "update_event (EvRender c) = True"
| "update_event (EvTestTemplate c r) = True"
| "update_event EvCreateTemp = True"
| "update_event (EvWriteFile p c r) = True"
| "update_event (EvDiff a b) = True"
| "update_event (EvRemove p) = True"
| "update_event (EvReload out r) = True"
| "update_event _ = False"

fun store_event :: "event \<Rightarrow> bool" where
  "store_event (EvStoreSSLCertOnDisk name c r) = True"
| "store_event _ = False"

text \<open>The world once the lock is held and the two certificate metrics are set (lines 308 to 312).\<close>

definition entered :: "TemplateConfig \<Rightarrow> world \<Rightarrow> world" where
  "entered cfg w = emit (EvSetSSLInfo (Servers cfg)) (emit (EvSetSSLExpireTime (Servers cfg)) (emit EvLock w))"

text \<open>Writes through \<open>os.WriteFile\<close> and reload commands; reload commands that failed.\<close>

fun writes_or_reloads :: "event \<Rightarrow> bool" where
  "writes_or_reloads (EvWriteFile p c r) = True"
| "writes_or_reloads (EvReload out r) = True"
| "writes_or_reloads _ = False"

fun failed_reload :: "event \<Rightarrow> bool" where
  "failed_reload (EvReload out (Some err)) = True"
| "failed_reload _ = False"

text \<open>
  The results of the dynamic pushes and the lengths of the sleeps among a list of events, in
  the order they were made.
\<close>

fun attempts :: "event list \<Rightarrow> error option list" where
  "attempts [] = []"
| "attempts (EvConfigureDynamically i a b r # es) = r # attempts es"
| "attempts (e # es) = attempts es"

fun sleeps :: "event list \<Rightarrow> rat list" where
  "sleeps [] = []"
| "sleeps (EvSleep d # es) = d # sleeps es"
| "sleeps (e # es) = sleeps es"

text \<open>
  What the retry loop does from a given state, as a property of the events it adds: the results
  of the pushes and the sleeps as such, and the order of the events, a push at every even
  position and a sleep at every odd one.
\<close>

definition push_loop_spec ::
  "env \<Rightarrow> ingress_Configuration \<Rightarrow> ingress_Configuration \<Rightarrow> Backoff \<Rightarrow> (nat \<Rightarrow> rat) \<Rightarrow>
   nat \<Rightarrow> rat \<Rightarrow> world \<Rightarrow> error option \<Rightarrow> world \<Rightarrow> event list \<Rightarrow> bool" where
  "push_loop_spec env newcfg oldcfg b rnd m d w res w' es \<longleftrightarrow>
     w' = w\<lparr>trace := trace w @ es, pushes := pushes w + length (attempts es)\<rparr> \<and>
     res = (if attempts es = [] then Some ErrWaitTimeout else last (attempts es)) \<and>
     length (attempts es) \<le> m \<and>
     (0 < m \<longrightarrow> attempts es \<noteq> []) \<and>
     (\<forall>j. Suc j < length (attempts es) \<longrightarrow> attempts es ! j \<noteq> None) \<and>
     (\<forall>j < length (attempts es). attempts es ! j = ConfigureDynamically env (pushes w + j) newcfg oldcfg) \<and>
     length (sleeps es) = length (attempts es) - 1 \<and>
     (\<forall>k < length (sleeps es). sleeps es ! k = jittered b (rnd (m - Suc k)) (d * Factor b ^ k)) \<and>
     length es = 2 * length (attempts es) - 1 \<and>
     (\<forall>j < length (attempts es).
        es ! (2 * j) = EvConfigureDynamically (pushes w + j) newcfg oldcfg
                         (ConfigureDynamically env (pushes w + j) newcfg oldcfg)) \<and>
     (\<forall>k. Suc k < length (attempts es) \<longrightarrow>
        es ! (2 * k + 1) = EvSleep (jittered b (rnd (m - Suc k)) (d * Factor b ^ k))) \<and>
     (res \<noteq> None \<longrightarrow> length (attempts es) = m)"

subsection \<open>Sample inputs\<close>

text \<open>
  A concrete environment in which every collaborator succeeds and the dynamic configuration is
  enough, a snapshot with the generation \<open>g\<close> and no certificate, and an orchestrator that has
  applied the snapshot of generation 5 and retries twice.
\<close>

definition sample_env :: env where
  "sample_env =
     \<lparr>cfgPath = ''/etc/nginx/nginx.conf'', FakeCertificateName = ''default-fake-certificate'',
      StoreSSLCertOnDisk = (\<lambda>name cert. None), AddOrUpdateDHParam = (\<lambda>file content. None),
      IsDynamicConfigurationEnough = (\<lambda>newcfg oldcfg. True), hashstructure_Hash = (\<lambda>c. 7),
      Sprintf_uint64 = (\<lambda>h. ''7''),
      Configuration_Equal = (\<lambda>a b. a = b), ConfigureDynamically = (\<lambda>i newcfg oldcfg. None),
      rand_Float64 = (\<lambda>i. 0), GetRemovedIngresses = (\<lambda>oldcfg newcfg. []),
      GetRemovedHosts = (\<lambda>oldcfg newcfg. []), GetRemovedCertificateSerialNumbers = (\<lambda>oldcfg newcfg. []),
      createOpentracingCfg = (\<lambda>c. None), SysctlSomaxconn = 511, IsIPv6Enabled = True,
      t_Write = (\<lambda>c. Inr ''events {}''), testTemplate = (\<lambda>content. None), klog_V2_Enabled = False,
      os_CreateTemp = Inr ''/tmp/new-nginx-cfg1'', write_fault = (\<lambda>path content. None),
      reload_CombinedOutput = ([], None)\<rparr>"

definition sample_snapshot :: "int \<Rightarrow> TemplateConfig" where
  "sample_snapshot g =
     \<lparr>DefaultSSLCertificate = None, BacklogSize = 0, Backends = [], Servers = [],
      TCPBackends = [], UDPBackends = [],
      Cfg = \<lparr>Checksum = ''c1'', SSLDHParam = [], Resolver = [], DisableIpv6DNS = False\<rparr>,
      GeneratedTime = g, DHParamFile = [], DHParamContent = None\<rparr>"

definition sample_n :: NGINXConfigurer where
  "sample_n = \<lparr>templateConfig = Some (sample_snapshot 5), DynamicConfigurationRetries = 2, resolver = []\<rparr>"

definition sample_world :: world where
  "sample_world = \<lparr>files = Map.empty, trace = [], pushes = 0\<rparr>"

text \<open>An environment in which a reload is required and the reload command fails.\<close>

definition reload_failing_env :: env where
  "reload_failing_env =
     sample_env\<lparr>IsDynamicConfigurationEnough := (\<lambda>newcfg oldcfg. False),
                reload_CombinedOutput := (''bind() failed'', Some (Error ''exit status 1''))\<rparr>"

text \<open>An environment in which a reload is required and every dynamic push is refused.\<close>

definition refusing_env :: env where
  "refusing_env =
     sample_env\<lparr>IsDynamicConfigurationEnough := (\<lambda>newcfg oldcfg. False),
                ConfigureDynamically := (\<lambda>i newcfg oldcfg. Some (Error ''connection refused''))\<rparr>"

text \<open>
  An environment in which the first dynamic push is refused and the second accepted, and the
  random source of the jitter always gives one half.
\<close>

definition busy_once_env :: env where
  "busy_once_env =
     sample_env\<lparr>ConfigureDynamically := (\<lambda>i newcfg oldcfg. if i < 1 then Some (Error ''busy'') else None),
                rand_Float64 := (\<lambda>i. 1 / 2)\<rparr>"

text \<open>The snapshot of generation \<open>g\<close> with an unnamed default certificate.\<close>

definition sample_certified :: "int \<Rightarrow> TemplateConfig" where
  "sample_certified g = (sample_snapshot g)\<lparr>DefaultSSLCertificate := Some \<lparr>Name = [], PemSHA = ''abc''\<rparr>\<rparr>"

section \<open>Properties\<close>

subsection \<open>Traces and files\<close>


lemma trace_emit: "trace (emit e w) = trace w @ [e]"
  by (simp add: emit_def)

lemma new_events_append: "trace w' = trace w @ es \<Longrightarrow> new_events w w' = es"
  by (simp add: new_events_def)

lemma keeps_refl: "keeps f P w w"
  by (simp add: keeps_def adds_def)

lemma keeps_emit: "P e \<Longrightarrow> keeps f P w (emit e w)"
  by (simp add: keeps_def adds_def emit_def)

lemma keeps_trans: "keeps f P w w1 \<Longrightarrow> keeps f P w1 w2 \<Longrightarrow> keeps f P w w2"
  by (auto simp: keeps_def adds_def)

lemma keeps_then_emit: "keeps f P w w1 \<Longrightarrow> P e \<Longrightarrow> keeps f P w (emit e w1)"
  by (blast intro: keeps_trans keeps_emit)

lemma keeps_new_events: "keeps f P w w' \<Longrightarrow> list_all P (new_events w w')"
  by (auto simp: keeps_def adds_def new_events_def)

lemma keeps_files: "keeps True P w w' \<Longrightarrow> files w' = files w"
  by (simp add: keeps_def)

text \<open>The polling loop keeps every relation that its condition and its sleep keep.\<close>

lemma ExponentialBackoff_steps_keeps:
  assumes refl: "\<And>s. R s s"
    and trans: "\<And>s1 s2 s3. R s1 s2 \<Longrightarrow> R s2 s3 \<Longrightarrow> R s1 s3"
    and cond: "\<And>s. R s (snd (condition s))"
    and sleep: "\<And>d s. R s (sleep d s)"
  shows "R s (snd (ExponentialBackoff_steps m d b rnd condition sleep s))"
proof (induction m arbitrary: d s)
  case 0
  show ?case by (simp add: refl)
next
  case (Suc m)
  obtain ok e s' where c: "condition s = ((ok, e), s')"
    by (metis prod.exhaust)
  have r1: "R s s'" using cond [of s] c by simp
  let ?s2 = "sleep (jittered b (rnd m) d) s'"
  have "R s' ?s2" by (rule sleep)
  moreover have "R ?s2 (snd (ExponentialBackoff_steps m (d * Factor b) b rnd condition sleep ?s2))"
    by (rule Suc.IH)
  ultimately have r2: "R s (snd (ExponentialBackoff_steps m (d * Factor b) b rnd condition sleep ?s2))"
    using r1 trans by blast
  show ?case
    using c r1 r2 by (cases ok; cases e) simp_all
qed

lemma pushAttempt_keeps:
  assumes "\<And>e. push_event e \<Longrightarrow> P e"
  shows "keeps f P (snd s) (snd (snd (pushAttempt env newcfg oldcfg s)))"
  using assms
  by (cases s) (auto simp: keeps_def pushAttempt_def Let_def adds_def emit_def split: option.splits)

lemma sleepFor_keeps:
  assumes "\<And>e. push_event e \<Longrightarrow> P e"
  shows "keeps f P (snd s) (snd (sleepFor d s))"
  using assms by (cases s) (auto simp: keeps_def sleepFor_def adds_def emit_def)

lemma pushDynamically_keeps:
  assumes P: "\<And>e. push_event e \<Longrightarrow> P e"
  shows "keeps f P w (snd (pushDynamically env n newcfg oldcfg w))"
proof -
  let ?R = "\<lambda>s s'. keeps f P (snd s) (snd s')"
  let ?s = "(Steps (retry n), w)"
  let ?r = "ExponentialBackoff (retry n) (rand_Float64 env) (pushAttempt env newcfg oldcfg) sleepFor ?s"
  have "?R ?s (snd ?r)"
    unfolding ExponentialBackoff_def
  proof (rule ExponentialBackoff_steps_keeps [where R = ?R])
    show "?R s s" for s by (simp add: keeps_refl)
    show "?R s1 s2 \<Longrightarrow> ?R s2 s3 \<Longrightarrow> ?R s1 s3" for s1 s2 s3 :: "64 word \<times> world"
      by (blast intro: keeps_trans)
    show "?R s (snd (pushAttempt env newcfg oldcfg s))" for s
      by (rule pushAttempt_keeps [OF P])
    show "?R s (sleepFor d s)" for d s by (rule sleepFor_keeps [OF P])
  qed
  then show ?thesis
    by (auto simp: pushDynamically_def split: prod.splits)
qed

lemma finishReconfiguration_keeps:
  assumes P: "\<And>e. after_event e \<Longrightarrow> P e"
  shows "keeps f P w (snd (finishReconfiguration env n cfg newcfg oldcfg w))"
proof -
  let ?w1 = "if Configuration_Equal env oldcfg empty_Configuration then emit (EvSleep 1) w else w"
  have a: "keeps f P w ?w1"
    by (simp add: keeps_refl keeps_emit P)
  obtain e w2 where p: "pushDynamically env n newcfg oldcfg ?w1 = (e, w2)"
    by (metis prod.exhaust)
  have "keeps f P ?w1 (snd (pushDynamically env n newcfg oldcfg ?w1))"
  proof (rule pushDynamically_keeps)
    show "P e" if "push_event e" for e
      using that by (cases e) (simp_all add: P)
  qed
  with p a have c: "keeps f P w w2"
    by (auto intro: keeps_trans)
  show ?thesis
  proof (cases e)
    case None
    have "keeps f P w (emit (EvRemoveMetrics ri re rc) w2)" for ri re rc
      using c by (rule keeps_then_emit) (simp add: P)
    with p None show ?thesis
      by (simp add: finishReconfiguration_def Let_def)
  next
    case (Some err)
    have "keeps f P w (emit (EvEventCh m) w2)" for m
      using c by (rule keeps_then_emit) (simp add: P)
    with p Some show ?thesis
      by (simp add: finishReconfiguration_def Let_def)
  qed
qed

lemma reloadAndFinish_keeps:
  assumes P: "\<And>e. after_event e \<Longrightarrow> P e"
    and upd: "reloadRequired env n cfg (configFromTemplate (Some cfg)) (configFromTemplate (templateConfig n))
              \<Longrightarrow> keeps f P w (snd (snd (updateConfiguration env n cfg w)))"
  shows "keeps f P w (snd (reloadAndFinish env n cfg w))"
proof (cases "reloadRequired env n cfg (configFromTemplate (Some cfg)) (configFromTemplate (templateConfig n))")
  case False
  then show ?thesis
    by (simp add: reloadAndFinish_def Let_def finishReconfiguration_keeps [OF P])
next
  case True
  obtain res cfg1 w1 where u: "updateConfiguration env n cfg w = (res, cfg1, w1)"
    by (metis prod.exhaust)
  have k: "keeps f P w w1" using upd [OF True] u by simp
  have k1: "keeps f P w (emit (EvEventCh m) (emit c (emit (EvConfigSuccess h b) w1)))"
    if "c = EvIncReloadCount \<or> c = EvIncReloadErrorCount" for m h b c
  proof -
    have "keeps f P w (emit (EvConfigSuccess h b) w1)"
      using k by (rule keeps_then_emit) (simp add: P)
    then have "keeps f P w (emit c (emit (EvConfigSuccess h b) w1))"
      by (rule keeps_then_emit) (use that in \<open>auto simp: P\<close>)
    then show ?thesis
      by (rule keeps_then_emit) (simp add: P)
  qed
  show ?thesis
  proof (cases res)
    case (Some err)
    have "keeps f P w (emit (EvEventCh m) (emit (EvConfigSuccess h b) (emit EvIncReloadErrorCount w1)))" for m h b
    proof -
      have "keeps f P w (emit EvIncReloadErrorCount w1)"
        using k by (rule keeps_then_emit) (simp add: P)
      then have "keeps f P w (emit (EvConfigSuccess h b) (emit EvIncReloadErrorCount w1))"
        by (rule keeps_then_emit) (simp add: P)
      then show ?thesis
        by (rule keeps_then_emit) (simp add: P)
    qed
    with True u Some show ?thesis
      by (simp add: reloadAndFinish_def Let_def)
  next
    case None
    let ?w2 = "\<lambda>m h. emit (EvEventCh m) (emit EvIncReloadCount (emit (EvConfigSuccess h True) w1))"
    have a: "keeps f P w (?w2 m h)" for m h
      by (rule k1) simp
    have "keeps f P w (snd (finishReconfiguration env n cfg1 nc oc (?w2 m h)))" for m h nc oc
      by (rule keeps_trans [OF a finishReconfiguration_keeps [OF P]])
    with True u None show ?thesis
      by (simp add: reloadAndFinish_def Let_def)
  qed
qed

lemma storeDHParam_keeps:
  assumes "\<And>e. before_event e \<Longrightarrow> P e"
  shows "keeps f P w (snd (storeDHParam env cfg w))"
  using assms
  by (auto simp: storeDHParam_def Let_def intro!: keeps_emit keeps_refl split: option.splits bool.splits)

lemma storeDefaultCertificate_keeps:
  assumes "\<And>e. store_event e \<Longrightarrow> P e"
  shows "keeps f P w (snd (storeDefaultCertificate env old cfg w))"
  using assms
  by (auto simp: storeDefaultCertificate_def Let_def intro!: keeps_emit keeps_refl split: option.splits)

subsection \<open>The ways through fullReconfiguration\<close>

lemma fullReconfiguration_stale:
  assumes "templateConfig n = Some old" and "GeneratedTime cfg \<le> GeneratedTime old"
  shows "fullReconfiguration env n (Some cfg) w = (Returned, n, emit EvUnlock (entered cfg w))"
  using assms by (simp add: fullReconfiguration_def fullReconfiguration_locked_def entered_def)

lemma fullReconfiguration_nil_stored:
  assumes "templateConfig n = None"
  shows "fullReconfiguration env n (Some cfg) w = (Panicked, n, emit EvUnlock (entered cfg w))"
  using assms by (simp add: fullReconfiguration_def fullReconfiguration_locked_def entered_def)

lemma fullReconfiguration_nil_cfg:
  "fullReconfiguration env n None w = (Panicked, n, emit EvUnlock (emit EvLock w))"
  by (simp add: fullReconfiguration_def fullReconfiguration_locked_def)

lemma fullReconfiguration_fresh:
  assumes "templateConfig n = Some old" and "GeneratedTime old < GeneratedTime cfg"
  shows "fullReconfiguration env n (Some cfg) w =
     (case storeDefaultCertificate env old cfg (entered cfg w) of
        (Some err, w2) \<Rightarrow> (Returned, n, emit EvUnlock w2)
      | (None, w2) \<Rightarrow>
          (case storeDHParam env cfg w2 of
             (Some err, w3) \<Rightarrow> (Returned, n, emit EvUnlock w3)
           | (None, w3) \<Rightarrow>
               (case reloadAndFinish env n cfg w3 of
                  (n', w4) \<Rightarrow> (Returned, n', emit EvUnlock w4))))"
  using assms
  by (simp add: fullReconfiguration_def fullReconfiguration_locked_def entered_def
      split: prod.splits option.splits)

lemma keeps_entered:
  assumes "\<And>e. before_event e \<Longrightarrow> P e"
  shows "keeps f P w (entered cfg w)"
  unfolding entered_def
  by (intro keeps_then_emit keeps_refl) (simp_all add: assms)

lemma fullReconfiguration_keeps:
  assumes bef: "\<And>e. before_event e \<Longrightarrow> P e"
    and aft: "\<And>e. after_event e \<Longrightarrow> P e"
    and cert: "\<And>old w1. templateConfig n = Some old \<Longrightarrow> GeneratedTime old < GeneratedTime cfg \<Longrightarrow>
                 keeps f P w1 (snd (storeDefaultCertificate env old cfg w1))"
    and upd: "\<And>old w1. templateConfig n = Some old \<Longrightarrow> GeneratedTime old < GeneratedTime cfg \<Longrightarrow>
                reloadRequired env n cfg (configFromTemplate (Some cfg)) (configFromTemplate (templateConfig n)) \<Longrightarrow>
                keeps f P w1 (snd (snd (updateConfiguration env n cfg w1)))"
  shows "keeps f P w (snd (snd (fullReconfiguration env n (Some cfg) w)))"
proof (cases "templateConfig n")
  case None
  have "keeps f P w (emit EvUnlock (entered cfg w))"
    by (rule keeps_then_emit [OF keeps_entered]) (simp_all add: bef)
  then show ?thesis by (simp add: fullReconfiguration_nil_stored [OF None])
next
  case (Some old)
  show ?thesis
  proof (cases "GeneratedTime cfg \<le> GeneratedTime old")
    case True
    have "keeps f P w (emit EvUnlock (entered cfg w))"
      by (rule keeps_then_emit [OF keeps_entered]) (simp_all add: bef)
    then show ?thesis by (simp add: fullReconfiguration_stale [OF Some True])
  next
    case False
    then have fresh: "GeneratedTime old < GeneratedTime cfg" by simp
    let ?w1 = "entered cfg w"
    obtain e2 w2 where s2: "storeDefaultCertificate env old cfg ?w1 = (e2, w2)" by (metis prod.exhaust)
    obtain e3 w3 where s3: "storeDHParam env cfg w2 = (e3, w3)" by (metis prod.exhaust)
    obtain n4 w4 where s4: "reloadAndFinish env n cfg w3 = (n4, w4)" by (metis prod.exhaust)
    have k1: "keeps f P w ?w1" by (rule keeps_entered [OF bef])
    have "keeps f P ?w1 w2" using cert [OF Some fresh, of ?w1] s2 by simp
    with k1 have k2: "keeps f P w w2" by (rule keeps_trans)
    have "keeps f P w2 w3" using storeDHParam_keeps [of P f w2 env cfg, OF bef] s3 by simp
    with k2 have k3: "keeps f P w w3" by (rule keeps_trans)
    have "keeps f P w3 (snd (reloadAndFinish env n cfg w3))"
    proof (rule reloadAndFinish_keeps)
      show "P e" if "after_event e" for e by (rule aft [OF that])
      show "keeps f P w3 (snd (snd (updateConfiguration env n cfg w3)))"
        if "reloadRequired env n cfg (configFromTemplate (Some cfg)) (configFromTemplate (templateConfig n))"
        by (rule upd [OF Some fresh that])
    qed
    with k3 s4 have k4: "keeps f P w w4" by (auto intro: keeps_trans)
    have u: "keeps f P w (emit EvUnlock v)" if "keeps f P w v" for v
      using that by (rule keeps_then_emit) (simp add: bef)
    show ?thesis
      using s2 s3 s4 u [OF k2] u [OF k3] u [OF k4]
      by (simp add: fullReconfiguration_fresh [OF Some fresh] split: option.splits)
  qed
qed

lemma updateConfiguration_keeps:
  assumes "\<And>e. update_event e \<Longrightarrow> P e"
  shows "keeps False P w (snd (snd (updateConfiguration env n cfg w)))"
proof -
  have "adds update_event w (snd (snd (updateConfiguration env n cfg w)))"
    by (auto simp: updateConfiguration_def logConfigurationDiff_def os_WriteFile_def adds_def emit_def Let_def
        split: option.splits sum.splits prod.splits if_splits)
  then show ?thesis
    using assms by (auto simp: keeps_def adds_def list_all_iff)
qed

lemma updateConfiguration_rejected:
  assumes "createOpentracingCfg env (Cfg cfg) = None"
    and "t_Write env (withRuntimeSettings env n cfg) = Inr content"
    and "testTemplate env content = Some err"
  shows "updateConfiguration env n cfg w =
           (Some err, withRuntimeSettings env n cfg,
            w\<lparr>trace := trace w @ [EvCreateOpentracingCfg None, EvRender (withRuntimeSettings env n cfg),
                                  EvTestTemplate content (Some err)]\<rparr>)"
  using assms by (simp add: updateConfiguration_def Let_def emit_def)

lemma storeDefaultCertificate_fails:
  assumes "DefaultSSLCertificate cfg = Some cert"
    and "case DefaultSSLCertificate old of None \<Rightarrow> True | Some oldcert \<Rightarrow> PemSHA oldcert \<noteq> PemSHA cert"
    and "StoreSSLCertOnDisk env (if Name cert = [] then FakeCertificateName env else Name cert) cert = Some err"
  shows "fst (storeDefaultCertificate env old cfg w) = Some err"
  using assms by (simp add: storeDefaultCertificate_def Let_def)

lemma storeDHParam_fails:
  assumes "DHParamFile cfg \<noteq> []" and "DHParamContent cfg = Some content"
    and "AddOrUpdateDHParam env (DHParamFile cfg) content = Some err"
  shows "fst (storeDHParam env cfg w) = Some err"
  using assms by (simp add: storeDHParam_def Let_def)

lemma storeDefaultCertificate_trace:
  "trace (snd (storeDefaultCertificate env old cfg w)) = trace w @
     (case DefaultSSLCertificate cfg of
        None \<Rightarrow> []
      | Some cert \<Rightarrow>
          (if (case DefaultSSLCertificate old of None \<Rightarrow> True | Some oldcert \<Rightarrow> PemSHA oldcert \<noteq> PemSHA cert)
           then [EvStoreSSLCertOnDisk (if Name cert = [] then FakeCertificateName env else Name cert) cert
                   (StoreSSLCertOnDisk env (if Name cert = [] then FakeCertificateName env else Name cert) cert)]
           else []))"
  by (simp add: storeDefaultCertificate_def Let_def emit_def split: option.splits)

lemma after_certificate_keeps:
  assumes stored: "templateConfig n = Some old" and fresh: "GeneratedTime old < GeneratedTime cfg"
    and bef: "\<And>e. before_event e \<Longrightarrow> P e" and aft: "\<And>e. after_event e \<Longrightarrow> P e"
    and upd: "\<And>e. update_event e \<Longrightarrow> P e"
  shows "keeps False P (snd (storeDefaultCertificate env old cfg (entered cfg w)))
           (snd (snd (fullReconfiguration env n (Some cfg) w)))"
proof -
  obtain e2 w2 where s2: "storeDefaultCertificate env old cfg (entered cfg w) = (e2, w2)" by (metis prod.exhaust)
  obtain e3 w3 where s3: "storeDHParam env cfg w2 = (e3, w3)" by (metis prod.exhaust)
  obtain n4 w4 where s4: "reloadAndFinish env n cfg w3 = (n4, w4)" by (metis prod.exhaust)
  have "keeps False P w2 (snd (storeDHParam env cfg w2))"
    by (rule storeDHParam_keeps) (rule bef)
  with s3 have k3: "keeps False P w2 w3" by simp
  have "keeps False P w3 (snd (reloadAndFinish env n cfg w3))"
  proof (rule reloadAndFinish_keeps)
    show "P e" if "after_event e" for e by (rule aft [OF that])
    show "keeps False P w3 (snd (snd (updateConfiguration env n cfg w3)))"
      by (rule updateConfiguration_keeps) (rule upd)
  qed
  with k3 s4 have k4: "keeps False P w2 w4" by (auto intro: keeps_trans)
  have u: "keeps False P w2 (emit EvUnlock v)" if "keeps False P w2 v" for v
    using that by (rule keeps_then_emit) (simp add: bef)
  show ?thesis
    using s2 s3 s4 u [OF keeps_refl] u [OF k3] u [OF k4]
    by (simp add: fullReconfiguration_fresh [OF stored fresh] split: option.splits)
qed

lemma updateConfiguration_reload:
  assumes "updateConfiguration env n cfg w = (res, cfg1, w1)"
  shows "(\<forall>out err. EvReload out (Some err) \<in> set (new_events w w1) \<longrightarrow>
            res = Some (reload_error err out) \<and>
            (\<exists>content. EvWriteFile (cfgPath env) content None \<in> set (new_events w w1) \<and>
               files w1 (cfgPath env) = Some content)) \<and>
         (res = None \<longrightarrow> (\<forall>out err. EvReload out (Some err) \<notin> set (new_events w w1)))"
  using assms
  by (auto simp: updateConfiguration_def logConfigurationDiff_def os_WriteFile_def new_events_def emit_def Let_def
      split: option.splits sum.splits prod.splits if_splits)

lemma new_events_split:
  assumes "keeps f P w w1" and "keeps g Q w1 w2"
  shows "new_events w w2 = new_events w w1 @ new_events w1 w2"
  using assms by (auto simp: keeps_def adds_def new_events_def)

lemma new_events_emit:
  assumes "keeps f P w w1"
  shows "new_events w (emit e w1) = new_events w w1 @ [e]"
  using assms by (auto simp: keeps_def adds_def new_events_def emit_def)

lemma keeps_any: "keeps f P w w' \<Longrightarrow> keeps False (\<lambda>e. True) w w'"
  by (auto simp: keeps_def adds_def list_all_iff)

lemma quiet_no_failed_reload:
  assumes "keeps f (\<lambda>e. \<not> failed_reload e) w w'"
  shows "EvReload out (Some err) \<notin> set (new_events w w')"
proof
  assume "EvReload out (Some err) \<in> set (new_events w w')"
  moreover have "list_all (\<lambda>e. \<not> failed_reload e) (new_events w w')"
    by (rule keeps_new_events [OF assms])
  ultimately show False by (auto simp: list_all_iff)
qed

lemma reloadAndFinish_failed_reload:
  assumes hyp: "EvReload out (Some err) \<in> set (new_events w (snd (reloadAndFinish env n cfg w)))"
  shows "fst (reloadAndFinish env n cfg w) = n \<and>
         EvIncReloadErrorCount \<in> set (new_events w (snd (reloadAndFinish env n cfg w))) \<and>
         EvEventCh (newEventMessage EventTypeWarning ''RELOAD'' (reloadErrorMessage (reload_error err out)))
           \<in> set (new_events w (snd (reloadAndFinish env n cfg w))) \<and>
         (\<exists>content. EvWriteFile (cfgPath env) content None \<in> set (new_events w (snd (reloadAndFinish env n cfg w))))"
proof -
  let ?Q = "\<lambda>e. \<not> failed_reload e"
  let ?newcfg = "configFromTemplate (Some cfg)"
  let ?oldcfg = "configFromTemplate (templateConfig n)"
  have aft: "?Q e" if "after_event e" for e using that by (cases e) simp_all
  show ?thesis
  proof (cases "reloadRequired env n cfg ?newcfg ?oldcfg")
    case False
    have "keeps False ?Q w (snd (reloadAndFinish env n cfg w))"
      using False by (simp add: reloadAndFinish_def Let_def finishReconfiguration_keeps [OF aft])
    from quiet_no_failed_reload [OF this] hyp show ?thesis by simp
  next
    case True
    obtain res cfg1 w1 where u: "updateConfiguration env n cfg w = (res, cfg1, w1)"
      by (metis prod.exhaust)
    have ku: "keeps False (\<lambda>e. True) w w1"
      using updateConfiguration_keeps [of "\<lambda>e. True" w env n cfg] u by simp
    note ur = updateConfiguration_reload [OF u]
    show ?thesis
    proof (cases res)
      case None
      let ?h = "hashstructure_Hash env ?newcfg"
      let ?w2 = "emit (EvEventCh (newEventMessage EventTypeNormal ''RELOAD''
                        ''NGINX reload triggered due to a change in configuration''))
                   (emit EvIncReloadCount (emit (EvConfigSuccess ?h True) w1))"
      let ?w3 = "snd (finishReconfiguration env n cfg1
                   (?newcfg\<lparr>ConfigurationChecksum := Sprintf_uint64 env ?h\<rparr>) ?oldcfg ?w2)"
      have r: "snd (reloadAndFinish env n cfg w) = ?w3"
        using True u None by (simp add: reloadAndFinish_def Let_def)
      have "list_all ?Q (new_events w w1)"
        using ur None by (auto simp: list_all_iff elim: failed_reload.elims)
      then have k1: "keeps False ?Q w w1"
        using ku by (auto simp: keeps_def adds_def new_events_def)
      have k2: "keeps False ?Q w ?w2"
        by (intro keeps_then_emit k1) simp_all
      have "keeps False ?Q ?w2 ?w3"
        by (rule finishReconfiguration_keeps) (rule aft)
      with k2 have "keeps False ?Q w ?w3" by (rule keeps_trans)
      from quiet_no_failed_reload [OF this] hyp r show ?thesis by simp
    next
      case (Some e)
      let ?h = "hashstructure_Hash env ?newcfg"
      let ?m = "newEventMessage EventTypeWarning ''RELOAD'' (reloadErrorMessage e)"
      let ?w' = "emit (EvEventCh ?m) (emit (EvConfigSuccess ?h False) (emit EvIncReloadErrorCount w1))"
      have r: "reloadAndFinish env n cfg w = (n, ?w')"
        using True u Some by (simp add: reloadAndFinish_def Let_def)
      have new: "new_events w ?w' =
                   new_events w w1 @ [EvIncReloadErrorCount, EvConfigSuccess ?h False, EvEventCh ?m]"
        using ku by (auto simp: keeps_def adds_def new_events_def emit_def)
      from hyp have "EvReload out (Some err) \<in> set (new_events w w1)"
        by (simp add: r new)
      with ur have "res = Some (reload_error err out)"
        and "\<exists>content. EvWriteFile (cfgPath env) content None \<in> set (new_events w w1)"
        by blast+
      with Some show ?thesis
        by (auto simp: r new)
    qed
  qed
qed

lemma reloadAndFinish_extends: "keeps False (\<lambda>e. True) w (snd (reloadAndFinish env n cfg w))"
proof (rule reloadAndFinish_keeps)
  show "keeps False (\<lambda>e. True) w (snd (snd (updateConfiguration env n cfg w)))"
    by (rule updateConfiguration_keeps) simp
qed simp










text \<open>The definitions to unfold when a call is evaluated on the sample inputs.\<close>

lemmas model_defs = fullReconfiguration_def fullReconfiguration_locked_def storeDefaultCertificate_def
  storeDHParam_def reloadAndFinish_def reloadRequired_def finishReconfiguration_def pushDynamically_def
  ExponentialBackoff_def retry_def pushAttempt_def sleepFor_def jittered_def configFromTemplate_def
  empty_Configuration_def updateConfiguration_def logConfigurationDiff_def
  os_WriteFile_def emit_def new_events_def withRuntimeSettings_def Let_def

lemmas sample_defs = sample_env_def sample_n_def sample_snapshot_def sample_world_def sample_certified_def
  refusing_env_def reload_failing_env_def

text \<open>The retry counter does not wrap while it is positive.\<close>

lemma sint_pred:
  fixes x :: "64 word"
  assumes "0 < sint x"
  shows "sint (x - 1) = sint x - 1"
proof -
  have "sint x < 2 ^ 63" using sint_lt [of x] by simp
  with assms have "signed_take_bit 63 (sint x - 1) = sint x - 1"
    by (intro signed_take_bit_int_eq_self) auto
  then show ?thesis
    by (simp add: sint_word_ariths)
qed

lemma sint_succ_bound:
  fixes r :: "64 word"
  assumes "0 < sint (1 + r)"
  shows "sint (1 + r) = 1 + sint r"
proof (cases "sint r = 2 ^ 63 - 1")
  case True
  have "sint (1 + r) = signed_take_bit 63 (1 + sint r)"
    by (simp add: sint_word_ariths)
  also have "\<dots> = signed_take_bit 63 (9223372036854775808 :: int)"
    by (simp add: True)
  also have "\<dots> < 0"
    by (simp add: signed_take_bit_eq_take_bit_minus take_bit_eq_mod bit_iff_odd)
  finally show ?thesis using assms by simp
next
  case False
  have "sint r < 2 ^ 63" using sint_lt [of r] by simp
  with False have "1 + sint r < 2 ^ 63" by simp
  moreover have "- (2 ^ 63) \<le> sint r" using sint_ge [of r] by simp
  ultimately have "signed_take_bit 63 (1 + sint r) = 1 + sint r"
    by (intro signed_take_bit_int_eq_self) auto
  then show ?thesis
    by (simp add: sint_word_ariths)
qed

lemma push_loop:
  fixes rr :: "64 word"
  assumes "sint rr = int m"
  shows "\<exists>es res rr' w'.
           ExponentialBackoff_steps m d b rnd (pushAttempt env newcfg oldcfg) sleepFor (rr, w) =
             (res, (rr', w')) \<and>
           push_loop_spec env newcfg oldcfg b rnd m d w res w' es"
  using assms
proof (induction m arbitrary: d rr w)
  case 0
  have "push_loop_spec env newcfg oldcfg b rnd 0 d w (Some ErrWaitTimeout) w []"
    by (simp add: push_loop_spec_def)
  then show ?case by auto
next
  case (Suc m)
  let ?r = "ConfigureDynamically env (pushes w) newcfg oldcfg"
  let ?ev = "EvConfigureDynamically (pushes w) newcfg oldcfg ?r"
  let ?w1 = "emit ?ev (w\<lparr>pushes := Suc (pushes w)\<rparr>)"
  have w1: "?w1 = w\<lparr>trace := trace w @ [?ev], pushes := pushes w + 1\<rparr>"
    by (simp add: emit_def)
  show ?case
  proof (cases ?r)
    case None
    then have "ExponentialBackoff_steps (Suc m) d b rnd (pushAttempt env newcfg oldcfg) sleepFor (rr, w) =
                 (None, (rr, ?w1))"
      by (simp add: pushAttempt_def Let_def)
    moreover have "push_loop_spec env newcfg oldcfg b rnd (Suc m) d w None ?w1 [?ev]"
      using None by (simp add: push_loop_spec_def emit_def)
    ultimately show ?thesis by blast
  next
    case (Some e)
    let ?rr1 = "rr - 1"
    have rr1: "sint ?rr1 = int m"
      using Suc.prems sint_pred [of rr] by simp
    show ?thesis
    proof (cases "m = 0")
      case True
      with rr1 Some have "ExponentialBackoff_steps (Suc m) d b rnd (pushAttempt env newcfg oldcfg) sleepFor (rr, w) =
                 (Some e, (?rr1, ?w1))"
        by (simp add: pushAttempt_def Let_def)
      moreover have "push_loop_spec env newcfg oldcfg b rnd (Suc m) d w (Some e) ?w1 [?ev]"
        using Some True by (simp add: push_loop_spec_def emit_def)
      ultimately show ?thesis by blast
    next
      case False
      let ?sl = "EvSleep (jittered b (rnd m) d)"
      let ?w2 = "emit ?sl ?w1"
      from Suc.IH [OF rr1, of "d * Factor b" ?w2]
      obtain es res rr' w' where
        run: "ExponentialBackoff_steps m (d * Factor b) b rnd (pushAttempt env newcfg oldcfg) sleepFor (?rr1, ?w2) =
                (res, (rr', w'))"
        and spec: "push_loop_spec env newcfg oldcfg b rnd m (d * Factor b) ?w2 res w' es"
        by blast
      have "ExponentialBackoff_steps (Suc m) d b rnd (pushAttempt env newcfg oldcfg) sleepFor (rr, w) =
              (res, (rr', w'))"
        using False rr1 Some run by (simp add: pushAttempt_def sleepFor_def Let_def)
      moreover have "push_loop_spec env newcfg oldcfg b rnd (Suc m) d w res w' (?ev # ?sl # es)"
      proof -
        have p2: "pushes ?w2 = Suc (pushes w)" and t2: "trace ?w2 = trace w @ [?ev, ?sl]"
          by (simp_all add: emit_def)
        have at: "attempts (?ev # ?sl # es) = ?r # attempts es"
          and sl: "sleeps (?ev # ?sl # es) = jittered b (rnd m) d # sleeps es"
          by simp_all
        from spec have s1: "w' = ?w2\<lparr>trace := trace ?w2 @ es, pushes := pushes ?w2 + length (attempts es)\<rparr>"
          and s2: "res = (if attempts es = [] then Some ErrWaitTimeout else last (attempts es))"
          and s3: "length (attempts es) \<le> m"
          and s4: "0 < m \<longrightarrow> attempts es \<noteq> []"
          and s5: "\<forall>j. Suc j < length (attempts es) \<longrightarrow> attempts es ! j \<noteq> None"
          and s6: "\<forall>j < length (attempts es). attempts es ! j = ConfigureDynamically env (pushes ?w2 + j) newcfg oldcfg"
          and s7: "length (sleeps es) = length (attempts es) - 1"
          and s8: "\<forall>k < length (sleeps es). sleeps es ! k = jittered b (rnd (m - Suc k)) (d * Factor b * Factor b ^ k)"
          and s9: "length es = 2 * length (attempts es) - 1"
          and s10: "\<forall>j < length (attempts es).
                      es ! (2 * j) = EvConfigureDynamically (pushes ?w2 + j) newcfg oldcfg
                                       (ConfigureDynamically env (pushes ?w2 + j) newcfg oldcfg)"
          and s11: "\<forall>k. Suc k < length (attempts es) \<longrightarrow>
                      es ! (2 * k + 1) = EvSleep (jittered b (rnd (m - Suc k)) (d * Factor b * Factor b ^ k))"
          and s12: "res \<noteq> None \<longrightarrow> length (attempts es) = m"
          unfolding push_loop_spec_def by blast+
        have ne: "attempts es \<noteq> []" using s4 False by simp
        have a1: "w' = w\<lparr>trace := trace w @ (?ev # ?sl # es),
                          pushes := pushes w + length (attempts (?ev # ?sl # es))\<rparr>"
          unfolding at by (subst s1) (simp add: emit_def)
        have a2: "res = (if attempts (?ev # ?sl # es) = [] then Some ErrWaitTimeout
                         else last (attempts (?ev # ?sl # es)))"
          unfolding at using s2 ne by simp
        have a3: "length (attempts (?ev # ?sl # es)) \<le> Suc m"
          unfolding at using s3 by simp
        have a4: "attempts (?ev # ?sl # es) \<noteq> []"
          unfolding at by simp
        have a5: "attempts (?ev # ?sl # es) ! j \<noteq> None" if "Suc j < length (attempts (?ev # ?sl # es))" for j
        proof (cases j)
          case 0
          then show ?thesis unfolding at using Some by simp
        next
          case (Suc j')
          with that have "Suc j' < length (attempts es)" unfolding at by simp
          with s5 have "attempts es ! j' \<noteq> None" by blast
          then show ?thesis unfolding at Suc by simp
        qed
        have a6: "attempts (?ev # ?sl # es) ! j = ConfigureDynamically env (pushes w + j) newcfg oldcfg"
          if "j < length (attempts (?ev # ?sl # es))" for j
        proof (cases j)
          case 0
          then show ?thesis unfolding at by simp
        next
          case (Suc j')
          with that have "j' < length (attempts es)" unfolding at by simp
          with s6 have "attempts es ! j' = ConfigureDynamically env (pushes ?w2 + j') newcfg oldcfg" by blast
          then show ?thesis unfolding at Suc p2 by simp
        qed
        have a7: "length (sleeps (?ev # ?sl # es)) = length (attempts (?ev # ?sl # es)) - 1"
          unfolding at sl using s7 ne by (cases "attempts es") simp_all
        have a8: "sleeps (?ev # ?sl # es) ! k = jittered b (rnd (Suc m - Suc k)) (d * Factor b ^ k)"
          if "k < length (sleeps (?ev # ?sl # es))" for k
        proof (cases k)
          case 0
          then show ?thesis unfolding sl by simp
        next
          case (Suc k')
          with that have "k' < length (sleeps es)" unfolding sl by simp
          with s8 have "sleeps es ! k' = jittered b (rnd (m - Suc k')) (d * Factor b * Factor b ^ k')" by blast
          then show ?thesis unfolding sl Suc by (simp add: mult.assoc)
        qed
        have a9: "length (?ev # ?sl # es) = 2 * length (attempts (?ev # ?sl # es)) - 1"
          unfolding at using s9 ne by (cases "attempts es") simp_all
        have a10: "(?ev # ?sl # es) ! (2 * j) = EvConfigureDynamically (pushes w + j) newcfg oldcfg
                     (ConfigureDynamically env (pushes w + j) newcfg oldcfg)"
          if "j < length (attempts (?ev # ?sl # es))" for j
        proof (cases j)
          case 0
          then show ?thesis by simp
        next
          case (Suc j')
          with that have "j' < length (attempts es)" unfolding at by simp
          with s10 have "es ! (2 * j') = EvConfigureDynamically (pushes ?w2 + j') newcfg oldcfg
                     (ConfigureDynamically env (pushes ?w2 + j') newcfg oldcfg)" by blast
          then show ?thesis unfolding Suc p2 by simp
        qed
        have a11: "(?ev # ?sl # es) ! (2 * k + 1) = EvSleep (jittered b (rnd (Suc m - Suc k)) (d * Factor b ^ k))"
          if "Suc k < length (attempts (?ev # ?sl # es))" for k
        proof (cases k)
          case 0
          then show ?thesis by simp
        next
          case (Suc k')
          with that have "Suc k' < length (attempts es)" unfolding at by simp
          with s11 have "es ! (2 * k' + 1) = EvSleep (jittered b (rnd (m - Suc k')) (d * Factor b * Factor b ^ k'))"
            by blast
          then show ?thesis unfolding Suc by (simp add: mult.assoc)
        qed
        have a12: "res \<noteq> None \<longrightarrow> length (attempts (?ev # ?sl # es)) = Suc m"
          unfolding at using s12 by simp
        show ?thesis
          unfolding push_loop_spec_def
          using a1 a2 a3 a4 a5 a6 a7 a8 a9 a10 a11 a12 by blast
      qed
      ultimately show ?thesis by blast
    qed
  qed
qed

lemma pushDynamically_spec:
  "\<exists>es. push_loop_spec env newcfg oldcfg (retry n) (rand_Float64 env)
          (nat (sint (1 + DynamicConfigurationRetries n))) 1 w
          (fst (pushDynamically env n newcfg oldcfg w)) (snd (pushDynamically env n newcfg oldcfg w)) es"
proof (cases "0 < sint (1 + DynamicConfigurationRetries n)")
  case False
  then have m: "nat (sint (1 + DynamicConfigurationRetries n)) = 0" by simp
  have "pushDynamically env n newcfg oldcfg w = (Some ErrWaitTimeout, w)"
    by (simp add: pushDynamically_def ExponentialBackoff_def retry_def m)
  moreover have "push_loop_spec env newcfg oldcfg (retry n) (rand_Float64 env) 0 1 w (Some ErrWaitTimeout) w []"
    by (simp add: push_loop_spec_def)
  ultimately show ?thesis using m by auto
next
  case True
  let ?m = "nat (sint (1 + DynamicConfigurationRetries n))"
  have inv: "sint (1 + DynamicConfigurationRetries n) = int ?m" using True by simp
  from push_loop [OF inv, of 1 "retry n" "rand_Float64 env" env newcfg oldcfg w]
  obtain es res rr' w' where
    run: "ExponentialBackoff_steps ?m 1 (retry n) (rand_Float64 env) (pushAttempt env newcfg oldcfg) sleepFor
            (1 + DynamicConfigurationRetries n, w) = (res, (rr', w'))"
    and spec: "push_loop_spec env newcfg oldcfg (retry n) (rand_Float64 env) ?m 1 w res w' es"
    by blast
  have "pushDynamically env n newcfg oldcfg w = (res, w')"
    using run by (simp add: pushDynamically_def ExponentialBackoff_def retry_def)
  with spec show ?thesis by auto
qed

lemma jittered_bounds:
  assumes "0 \<le> r" and "r < 1" and "0 < d"
  shows "d \<le> jittered (retry n) r d \<and> jittered (retry n) r d < d * (11 / 10)"
proof -
  have j: "jittered (retry n) r d = d + r * (1 / 10) * d"
    by (simp add: jittered_def retry_def)
  have "0 \<le> r * (1 / 10) * d" using assms by simp
  moreover have "r * (1 / 10) * d < 1 * (1 / 10) * d"
    using assms by (intro mult_strict_right_mono) simp_all
  ultimately show ?thesis unfolding j by (simp add: algebra_simps)
qed

subsection \<open>The lock\<close>

text \<open>
  In the sequential model the lock is the first call of \<open>fullReconfiguration\<close> and the
  deferred unlock the last, on every path, and neither occurs in between.
\<close>

lemma fullReconfiguration_locked_keeps:
  assumes ssl: "\<And>s. P (EvSetSSLExpireTime s) \<and> P (EvSetSSLInfo s)"
    and dh: "\<And>f c r. P (EvAddOrUpdateDHParam f c r)"
    and sto: "\<And>e. store_event e \<Longrightarrow> P e"
    and aft: "\<And>e. after_event e \<Longrightarrow> P e"
    and upd: "\<And>e. update_event e \<Longrightarrow> P e"
  shows "keeps False P w (snd (snd (fullReconfiguration_locked env n cfgp w)))"
proof (cases cfgp)
  case None
  then show ?thesis by (simp add: fullReconfiguration_locked_def keeps_refl)
next
  case (Some cfg)
  let ?w1 = "emit (EvSetSSLInfo (Servers cfg)) (emit (EvSetSSLExpireTime (Servers cfg)) w)"
  have k1: "keeps False P w ?w1"
    by (intro keeps_then_emit keeps_refl) (simp_all add: ssl)
  show ?thesis
  proof (cases "templateConfig n")
    case None
    with Some k1 show ?thesis by (simp add: fullReconfiguration_locked_def)
  next
    case stored: (Some old)
    show ?thesis
    proof (cases "GeneratedTime cfg \<le> GeneratedTime old")
      case True
      with Some stored k1 show ?thesis by (simp add: fullReconfiguration_locked_def)
    next
      case False
      obtain e2 w2 where s2: "storeDefaultCertificate env old cfg ?w1 = (e2, w2)" by (metis prod.exhaust)
      obtain e3 w3 where s3: "storeDHParam env cfg w2 = (e3, w3)" by (metis prod.exhaust)
      obtain n4 w4 where s4: "reloadAndFinish env n cfg w3 = (n4, w4)" by (metis prod.exhaust)
      have "keeps False P ?w1 (snd (storeDefaultCertificate env old cfg ?w1))"
        by (rule storeDefaultCertificate_keeps) (rule sto)
      with k1 s2 have k2: "keeps False P w w2" by (auto intro: keeps_trans)
      have "keeps False P w2 (snd (storeDHParam env cfg w2))"
        by (auto simp: storeDHParam_def Let_def dh intro!: keeps_emit keeps_refl split: option.splits bool.splits)
      with k2 s3 have k3: "keeps False P w w3" by (auto intro: keeps_trans)
      have "keeps False P w3 (snd (reloadAndFinish env n cfg w3))"
      proof (rule reloadAndFinish_keeps)
        show "P e" if "after_event e" for e by (rule aft [OF that])
        show "keeps False P w3 (snd (snd (updateConfiguration env n cfg w3)))"
          by (rule updateConfiguration_keeps) (rule upd)
      qed
      with k3 s4 have k4: "keeps False P w w4" by (auto intro: keeps_trans)
      show ?thesis
        using Some stored False s2 s3 s4 k2 k3 k4
        by (simp add: fullReconfiguration_locked_def split: option.splits)
    qed
  qed
qed

lemma lock_brackets_the_call:
  "\<exists>mid. new_events w (snd (snd (fullReconfiguration env n cfgp w))) = EvLock # mid @ [EvUnlock] \<and>
         list_all (\<lambda>e. e \<noteq> EvLock \<and> e \<noteq> EvUnlock) mid"
proof -
  let ?Q = "\<lambda>e. e \<noteq> EvLock \<and> e \<noteq> EvUnlock"
  let ?w0 = "emit EvLock w"
  let ?w1 = "snd (snd (fullReconfiguration_locked env n cfgp ?w0))"
  have "keeps False ?Q ?w0 ?w1"
  proof (rule fullReconfiguration_locked_keeps)
    show "?Q e" if "store_event e" for e using that by (cases e) simp_all
    show "?Q e" if "after_event e" for e using that by (cases e) simp_all
    show "?Q e" if "update_event e" for e using that by (cases e) simp_all
  qed simp_all
  then obtain mid where t: "trace ?w1 = trace ?w0 @ mid" and q: "list_all ?Q mid"
    by (auto simp: keeps_def adds_def)
  have "snd (snd (fullReconfiguration env n cfgp w)) = emit EvUnlock ?w1"
    by (simp add: fullReconfiguration_def split: prod.splits)
  then have "new_events w (snd (snd (fullReconfiguration env n cfgp w))) = EvLock # mid @ [EvUnlock]"
    using t by (simp add: new_events_def emit_def)
  with q show ?thesis by blast
qed

subsection \<open>Claims\<close>

text \<open>
  C2 (as amended). A call whose snapshot is not strictly newer than the stored one returns
  after the staleness check: it leaves the orchestrator and the files as they were, stores no
  certificate, sends no event, no reload and no dynamic push; the only calls it makes are the
  lock, the two certificate metrics \<open>SetSSLExpireTime\<close> and \<open>SetSSLInfo\<close>, which precede the
  check, and the unlock.
\<close>

theorem stale_snapshot_is_rejected:
  assumes "templateConfig n = Some old" and "GeneratedTime cfg \<le> GeneratedTime old"
  shows "fullReconfiguration env n (Some cfg) w =
           (Returned, n,
            w\<lparr>trace := trace w @ [EvLock, EvSetSSLExpireTime (Servers cfg), EvSetSSLInfo (Servers cfg), EvUnlock]\<rparr>)"
  using assms by (simp add: fullReconfiguration_def fullReconfiguration_locked_def emit_def)

theorem stale_snapshot_is_rejected_witness:
  "templateConfig sample_n = Some (sample_snapshot 5) \<and>
   GeneratedTime (sample_snapshot 3) \<le> GeneratedTime (sample_snapshot 5) \<and>
   fullReconfiguration sample_env sample_n (Some (sample_snapshot 3)) sample_world =
     (Returned, sample_n, sample_world\<lparr>trace := [EvLock, EvSetSSLExpireTime [], EvSetSSLInfo [], EvUnlock]\<rparr>)"
proof -
  have a: "templateConfig sample_n = Some (sample_snapshot 5)"
    by (simp add: sample_n_def)
  have b: "GeneratedTime (sample_snapshot 3) \<le> GeneratedTime (sample_snapshot 5)"
    by (simp add: sample_snapshot_def)
  show ?thesis
    using a b stale_snapshot_is_rejected [OF a b, of sample_env sample_world]
    by (simp add: sample_snapshot_def sample_world_def)
qed

text \<open>
  C2 as stated fails: in a stale call the metrics collaborator is called all the same, here
  with the snapshot of generation 3 against the stored generation 5.
\<close>

theorem stale_snapshot_counterexample:
  "templateConfig sample_n = Some (sample_snapshot 5) \<and>
   GeneratedTime (sample_snapshot 3) \<le> GeneratedTime (sample_snapshot 5) \<and>
   EvSetSSLExpireTime [] \<in> set (new_events sample_world
      (snd (snd (fullReconfiguration sample_env sample_n (Some (sample_snapshot 3)) sample_world))))"
  by (simp add: fullReconfiguration_def fullReconfiguration_locked_def emit_def new_events_def
      sample_n_def sample_snapshot_def sample_world_def)

text \<open>
  C10 (as amended). \<open>fullReconfiguration\<close> is only safe when the stored \<open>n.templateConfig\<close> is not
  nil: the staleness check reads its \<open>GeneratedTime\<close> unconditionally, although
  \<open>configFromTemplate\<close> turns a nil stored reference into the empty configuration and the
  checksum comparison of line 347 skips it. With a nil stored reference every call faults: a
  call with a snapshot faults at the staleness check, after the lock has been taken and the
  two certificate metrics \<open>SetSSLExpireTime\<close> and \<open>SetSSLInfo\<close> of lines 311 and 312 have been
  called, and before anything else; a call with a nil snapshot faults earlier, at line 311,
  right after the lock. In both cases the deferred unlock runs and the orchestrator is left as
  it was.
\<close>

theorem nil_stored_configuration_faults:
  assumes "templateConfig n = None"
  shows "fullReconfiguration env n (Some cfg) w =
           (Panicked, n,
            w\<lparr>trace := trace w @ [EvLock, EvSetSSLExpireTime (Servers cfg), EvSetSSLInfo (Servers cfg), EvUnlock]\<rparr>) \<and>
         fullReconfiguration env n None w = (Panicked, n, w\<lparr>trace := trace w @ [EvLock, EvUnlock]\<rparr>) \<and>
         configFromTemplate (templateConfig n) = empty_Configuration \<and>
         reloadRequired env n cfg newcfg oldcfg = (\<not> IsDynamicConfigurationEnough env newcfg oldcfg)"
  using assms
  by (simp add: fullReconfiguration_def fullReconfiguration_locked_def emit_def configFromTemplate_def
      reloadRequired_def)

theorem nil_stored_configuration_faults_witness:
  "templateConfig (sample_n\<lparr>templateConfig := None\<rparr>) = None \<and>
   fullReconfiguration sample_env (sample_n\<lparr>templateConfig := None\<rparr>) (Some (sample_snapshot 1)) sample_world =
     (Panicked, sample_n\<lparr>templateConfig := None\<rparr>,
      sample_world\<lparr>trace := [EvLock, EvSetSSLExpireTime [], EvSetSSLInfo [], EvUnlock]\<rparr>) \<and>
   fullReconfiguration sample_env (sample_n\<lparr>templateConfig := None\<rparr>) None sample_world =
     (Panicked, sample_n\<lparr>templateConfig := None\<rparr>, sample_world\<lparr>trace := [EvLock, EvUnlock]\<rparr>)"
  using nil_stored_configuration_faults [of "sample_n\<lparr>templateConfig := None\<rparr>" sample_env "sample_snapshot 1" sample_world]
  by (simp add: sample_snapshot_def sample_world_def)

text \<open>
  C10 as stated fails: the fault at the staleness check is not the first thing that happens.
  With a nil stored reference, the call for the snapshot of generation 1 has called both
  certificate metrics before it faults, and the call with a nil snapshot faults before the
  staleness check is reached, with no metric called.
\<close>

theorem nil_stored_configuration_counterexample:
  "templateConfig (sample_n\<lparr>templateConfig := None\<rparr>) = None \<and>
   fst (fullReconfiguration sample_env (sample_n\<lparr>templateConfig := None\<rparr>) (Some (sample_snapshot 1)) sample_world)
     = Panicked \<and>
   new_events sample_world
     (snd (snd (fullReconfiguration sample_env (sample_n\<lparr>templateConfig := None\<rparr>) (Some (sample_snapshot 1))
        sample_world)))
     = [EvLock, EvSetSSLExpireTime [], EvSetSSLInfo [], EvUnlock] \<and>
   new_events sample_world
     (snd (snd (fullReconfiguration sample_env (sample_n\<lparr>templateConfig := None\<rparr>) None sample_world)))
     = [EvLock, EvUnlock]"
  by (simp add: fullReconfiguration_def fullReconfiguration_locked_def emit_def new_events_def
      sample_n_def sample_snapshot_def sample_world_def)

text \<open>
  C1. When the rendered configuration is rejected by the dry run (\<open>testTemplate\<close> returns an
  error), \<open>updateConfiguration\<close> returns that error right after the test: it has set up
  opentracing, rendered and tested, and done nothing else. For the whole reconciliation of such
  a snapshot, the live configuration file (as every file these functions write themselves)
  holds afterwards what it held before, and neither a write through \<open>os.WriteFile\<close> nor a
  reload command is among the calls made.
\<close>

theorem validation_failure_leaves_live_artifact:
  assumes ot: "createOpentracingCfg env (Cfg cfg) = None"
    and render: "t_Write env (withRuntimeSettings env n cfg) = Inr content"
    and rejected: "testTemplate env content = Some err"
  shows "updateConfiguration env n cfg w =
           (Some err, withRuntimeSettings env n cfg,
            w\<lparr>trace := trace w @ [EvCreateOpentracingCfg None, EvRender (withRuntimeSettings env n cfg),
                                  EvTestTemplate content (Some err)]\<rparr>) \<and>
         files (snd (snd (fullReconfiguration env n (Some cfg) w))) = files w \<and>
         list_all (\<lambda>e. \<not> writes_or_reloads e)
           (new_events w (snd (snd (fullReconfiguration env n (Some cfg) w))))"
proof -
  let ?P = "\<lambda>e. \<not> writes_or_reloads e"
  have u: "updateConfiguration env n cfg v =
           (Some err, withRuntimeSettings env n cfg,
            v\<lparr>trace := trace v @ [EvCreateOpentracingCfg None, EvRender (withRuntimeSettings env n cfg),
                                  EvTestTemplate content (Some err)]\<rparr>)" for v
    by (rule updateConfiguration_rejected [OF ot render rejected])
  have "keeps True ?P w (snd (snd (fullReconfiguration env n (Some cfg) w)))"
  proof (rule fullReconfiguration_keeps)
    show "?P e" if "before_event e" for e using that by (cases e) simp_all
    show "?P e" if "after_event e" for e using that by (cases e) simp_all
    show "keeps True ?P w1 (snd (storeDefaultCertificate env old cfg w1))" for old w1
    proof (rule storeDefaultCertificate_keeps)
      show "?P e" if "store_event e" for e using that by (cases e) simp_all
    qed
    show "keeps True ?P w1 (snd (snd (updateConfiguration env n cfg w1)))" for w1
      by (simp add: u keeps_def adds_def)
  qed
  then show ?thesis
    using u [of w] by (simp add: keeps_files keeps_new_events)
qed

theorem validation_failure_leaves_live_artifact_witness:
  "createOpentracingCfg (sample_env\<lparr>testTemplate := (\<lambda>c. Some (Error ''syntax error''))\<rparr>)
     (Cfg (sample_snapshot 6)) = None \<and>
   t_Write (sample_env\<lparr>testTemplate := (\<lambda>c. Some (Error ''syntax error''))\<rparr>)
     (withRuntimeSettings (sample_env\<lparr>testTemplate := (\<lambda>c. Some (Error ''syntax error''))\<rparr>)
        sample_n (sample_snapshot 6)) = Inr ''events {}'' \<and>
   testTemplate (sample_env\<lparr>testTemplate := (\<lambda>c. Some (Error ''syntax error''))\<rparr>) ''events {}''
     = Some (Error ''syntax error'') \<and>
   fst (updateConfiguration (sample_env\<lparr>testTemplate := (\<lambda>c. Some (Error ''syntax error''))\<rparr>)
          sample_n (sample_snapshot 6) sample_world) = Some (Error ''syntax error'') \<and>
   files (snd (snd (fullReconfiguration (sample_env\<lparr>testTemplate := (\<lambda>c. Some (Error ''syntax error''))\<rparr>)
          sample_n (Some (sample_snapshot 6)) sample_world))) = files sample_world"
proof -
  let ?E = "sample_env\<lparr>testTemplate := (\<lambda>c. Some (Error ''syntax error''))\<rparr>"
  have a: "createOpentracingCfg ?E (Cfg (sample_snapshot 6)) = None"
    by (simp add: sample_env_def)
  have b: "t_Write ?E (withRuntimeSettings ?E sample_n (sample_snapshot 6)) = Inr ''events {}''"
    by (simp add: sample_env_def)
  have c: "testTemplate ?E ''events {}'' = Some (Error ''syntax error'')"
    by simp
  show ?thesis
    using a b c validation_failure_leaves_live_artifact [OF a b c, of sample_world] by simp
qed

text \<open>
  C5. When the certificate store fails to write the default certificate (which is attempted
  when the snapshot has one and the stored snapshot has none or one with another \<open>PemSHA\<close>), or
  when the write of the DH parameters fails, \<open>fullReconfiguration\<close> returns at once: the stored
  snapshot is unchanged, no file written by this code changes, and nothing is rendered, tested,
  written, reloaded or pushed.
\<close>

theorem material_write_failure_aborts:
  assumes stored: "templateConfig n = Some old" and fresh: "GeneratedTime old < GeneratedTime cfg"
    and fails:
      "(\<exists>cert err. DefaultSSLCertificate cfg = Some cert \<and>
          (case DefaultSSLCertificate old of None \<Rightarrow> True | Some oldcert \<Rightarrow> PemSHA oldcert \<noteq> PemSHA cert) \<and>
          StoreSSLCertOnDisk env (if Name cert = [] then FakeCertificateName env else Name cert) cert = Some err) \<or>
       (\<exists>content err. DHParamFile cfg \<noteq> [] \<and> DHParamContent cfg = Some content \<and>
          AddOrUpdateDHParam env (DHParamFile cfg) content = Some err)"
  shows "fst (fullReconfiguration env n (Some cfg) w) = Returned \<and>
         fst (snd (fullReconfiguration env n (Some cfg) w)) = n \<and>
         files (snd (snd (fullReconfiguration env n (Some cfg) w))) = files w \<and>
         list_all (\<lambda>e. \<not> update_event e \<and> \<not> push_event e)
           (new_events w (snd (snd (fullReconfiguration env n (Some cfg) w))))"
proof -
  let ?P = "\<lambda>e. \<not> update_event e \<and> \<not> push_event e"
  let ?w1 = "entered cfg w"
  have bef: "?P e" if "before_event e" for e using that by (cases e) simp_all
  have sto: "?P e" if "store_event e" for e using that by (cases e) simp_all
  obtain e2 w2 where s2: "storeDefaultCertificate env old cfg ?w1 = (e2, w2)" by (metis prod.exhaust)
  obtain e3 w3 where s3: "storeDHParam env cfg w2 = (e3, w3)" by (metis prod.exhaust)
  have k1: "keeps True ?P w ?w1" by (rule keeps_entered) (rule bef)
  have "keeps True ?P ?w1 (snd (storeDefaultCertificate env old cfg ?w1))"
    by (rule storeDefaultCertificate_keeps) (rule sto)
  with k1 s2 have k2: "keeps True ?P w w2" by (auto intro: keeps_trans)
  have "keeps True ?P w2 (snd (storeDHParam env cfg w2))"
    by (rule storeDHParam_keeps) (rule bef)
  with k2 s3 have k3: "keeps True ?P w w3" by (auto intro: keeps_trans)
  have u: "keeps True ?P w (emit EvUnlock v)" if "keeps True ?P w v" for v
    using that by (rule keeps_then_emit) simp
  have abort: "e2 \<noteq> None \<or> e3 \<noteq> None"
    using fails storeDefaultCertificate_fails [of cfg _ old env _ ?w1] storeDHParam_fails [of cfg _ env _ w2] s2 s3
    by fastforce
  have "\<exists>v. fullReconfiguration env n (Some cfg) w = (Returned, n, emit EvUnlock v) \<and> keeps True ?P w v"
    using abort s2 s3 k2 k3
    by (auto simp: fullReconfiguration_fresh [OF stored fresh] split: option.splits)
  then obtain v where r: "fullReconfiguration env n (Some cfg) w = (Returned, n, emit EvUnlock v)"
    and kv: "keeps True ?P w v" by blast
  show ?thesis
    using u [OF kv] by (simp add: r keeps_files keeps_new_events)
qed

theorem material_write_failure_aborts_witness:
  "templateConfig sample_n = Some (sample_snapshot 5) \<and>
   GeneratedTime (sample_snapshot 5) < GeneratedTime (sample_certified 6) \<and>
   StoreSSLCertOnDisk (sample_env\<lparr>StoreSSLCertOnDisk := (\<lambda>name cert. Some (Error ''disk full''))\<rparr>)
     ''default-fake-certificate'' \<lparr>Name = [], PemSHA = ''abc''\<rparr> = Some (Error ''disk full'') \<and>
   fst (snd (fullReconfiguration (sample_env\<lparr>StoreSSLCertOnDisk := (\<lambda>name cert. Some (Error ''disk full''))\<rparr>)
     sample_n (Some (sample_certified 6)) sample_world)) = sample_n \<and>
   files (snd (snd (fullReconfiguration (sample_env\<lparr>StoreSSLCertOnDisk := (\<lambda>name cert. Some (Error ''disk full''))\<rparr>)
     sample_n (Some (sample_certified 6)) sample_world))) = files sample_world"
proof -
  let ?E = "sample_env\<lparr>StoreSSLCertOnDisk := (\<lambda>name cert. Some (Error ''disk full''))\<rparr>"
  have a: "templateConfig sample_n = Some (sample_snapshot 5)"
    by (simp add: sample_n_def)
  have b: "GeneratedTime (sample_snapshot 5) < GeneratedTime (sample_certified 6)"
    by (simp add: sample_snapshot_def sample_certified_def)
  have c: "DefaultSSLCertificate (sample_certified 6) = Some \<lparr>Name = [], PemSHA = ''abc''\<rparr> \<and>
      (case DefaultSSLCertificate (sample_snapshot 5) of None \<Rightarrow> True
       | Some oldcert \<Rightarrow> PemSHA oldcert \<noteq> PemSHA \<lparr>Name = [], PemSHA = ''abc''\<rparr>) \<and>
      StoreSSLCertOnDisk ?E
        (if Name \<lparr>Name = [], PemSHA = ''abc''\<rparr> = [] then FakeCertificateName ?E
         else Name \<lparr>Name = [], PemSHA = ''abc''\<rparr>)
        \<lparr>Name = [], PemSHA = ''abc''\<rparr> = Some (Error ''disk full'')"
    by (simp add: sample_snapshot_def sample_certified_def)
  have d: "(\<exists>cert err. DefaultSSLCertificate (sample_certified 6) = Some cert \<and>
          (case DefaultSSLCertificate (sample_snapshot 5) of None \<Rightarrow> True
           | Some oldcert \<Rightarrow> PemSHA oldcert \<noteq> PemSHA cert) \<and>
          StoreSSLCertOnDisk ?E (if Name cert = [] then FakeCertificateName ?E else Name cert) cert = Some err) \<or>
       (\<exists>content err. DHParamFile (sample_certified 6) \<noteq> [] \<and> DHParamContent (sample_certified 6) = Some content \<and>
          AddOrUpdateDHParam ?E (DHParamFile (sample_certified 6)) content = Some err)"
    using c by blast
  show ?thesis
    using a b material_write_failure_aborts [OF a b d, of sample_world]
    by (simp add: sample_env_def)
qed

text \<open>
  C4 (as amended). When the configmap checksum is the stored one and the dynamic configuration
  is enough, the reconciliation skips the reload block: the configuration file is not
  rendered, tested or written, no file written through \<open>os.WriteFile\<close> changes, and the proxy is
  not reloaded.
\<close>

theorem unchanged_configuration_skips_reload:
  assumes stored: "templateConfig n = Some old"
    and same: "Checksum (Cfg old) = Checksum (Cfg cfg)"
    and enough: "IsDynamicConfigurationEnough env (configFromTemplate (Some cfg)) (configFromTemplate (Some old))"
  shows "files (snd (snd (fullReconfiguration env n (Some cfg) w))) = files w \<and>
         list_all (\<lambda>e. \<not> update_event e)
           (new_events w (snd (snd (fullReconfiguration env n (Some cfg) w)))) \<and>
         EvRender c \<notin> set (new_events w (snd (snd (fullReconfiguration env n (Some cfg) w)))) \<and>
         EvTestTemplate content r \<notin> set (new_events w (snd (snd (fullReconfiguration env n (Some cfg) w)))) \<and>
         EvWriteFile path content r \<notin> set (new_events w (snd (snd (fullReconfiguration env n (Some cfg) w)))) \<and>
         EvReload out r \<notin> set (new_events w (snd (snd (fullReconfiguration env n (Some cfg) w))))"
proof -
  let ?P = "\<lambda>e. \<not> update_event e"
  have no: "\<not> reloadRequired env n cfg (configFromTemplate (Some cfg)) (configFromTemplate (templateConfig n))"
    using stored same enough by (simp add: reloadRequired_def)
  have "keeps True ?P w (snd (snd (fullReconfiguration env n (Some cfg) w)))"
  proof (rule fullReconfiguration_keeps)
    show "?P e" if "before_event e" for e using that by (cases e) simp_all
    show "?P e" if "after_event e" for e using that by (cases e) simp_all
    show "keeps True ?P w1 (snd (storeDefaultCertificate env old' cfg w1))" for old' w1
    proof (rule storeDefaultCertificate_keeps)
      show "?P e" if "store_event e" for e using that by (cases e) simp_all
    qed
    show "keeps True ?P w1 (snd (snd (updateConfiguration env n cfg w1)))"
      if "reloadRequired env n cfg (configFromTemplate (Some cfg)) (configFromTemplate (templateConfig n))" for w1
      using that no by simp
  qed
  then have "files (snd (snd (fullReconfiguration env n (Some cfg) w))) = files w"
    and quiet: "list_all ?P (new_events w (snd (snd (fullReconfiguration env n (Some cfg) w))))"
    by (simp_all add: keeps_files keeps_new_events)
  moreover have "e \<notin> set (new_events w (snd (snd (fullReconfiguration env n (Some cfg) w))))"
    if "update_event e" for e
    using quiet that by (auto simp: list_all_iff)
  ultimately show ?thesis by simp
qed

theorem unchanged_configuration_skips_reload_witness:
  "templateConfig sample_n = Some (sample_snapshot 5) \<and>
   Checksum (Cfg (sample_snapshot 5)) = Checksum (Cfg (sample_certified 6)) \<and>
   IsDynamicConfigurationEnough sample_env (configFromTemplate (Some (sample_certified 6)))
     (configFromTemplate (Some (sample_snapshot 5))) \<and>
   files (snd (snd (fullReconfiguration sample_env sample_n (Some (sample_certified 6)) sample_world)))
     = files sample_world \<and>
   EvWriteFile ''/etc/nginx/nginx.conf'' ''events {}'' None
     \<notin> set (new_events sample_world
          (snd (snd (fullReconfiguration sample_env sample_n (Some (sample_certified 6)) sample_world)))) \<and>
   EvReload [] None
     \<notin> set (new_events sample_world
          (snd (snd (fullReconfiguration sample_env sample_n (Some (sample_certified 6)) sample_world))))"
proof -
  have a: "templateConfig sample_n = Some (sample_snapshot 5)"
    by (simp add: sample_n_def)
  have b: "Checksum (Cfg (sample_snapshot 5)) = Checksum (Cfg (sample_certified 6))"
    by (simp add: sample_snapshot_def sample_certified_def)
  have c: "IsDynamicConfigurationEnough sample_env (configFromTemplate (Some (sample_certified 6)))
     (configFromTemplate (Some (sample_snapshot 5)))"
    by (simp add: sample_env_def)
  show ?thesis
    using a b c unchanged_configuration_skips_reload [OF a b c, of sample_world _ _ _ _ _] by simp
qed

text \<open>
  C4 as stated fails: such a reconciliation is not a no-op that stops before every file write.
  With the checksum unchanged and the dynamic configuration enough, a snapshot that brings a
  new default certificate has the certificate handed to the certificate store, which writes
  it to disk, then a dynamic push made and the stored snapshot replaced.
\<close>

theorem unchanged_configuration_counterexample:
  "templateConfig sample_n = Some (sample_snapshot 5) \<and>
   Checksum (Cfg (sample_snapshot 5)) = Checksum (Cfg (sample_certified 6)) \<and>
   IsDynamicConfigurationEnough sample_env (configFromTemplate (Some (sample_certified 6)))
     (configFromTemplate (Some (sample_snapshot 5))) \<and>
   new_events sample_world
      (snd (snd (fullReconfiguration sample_env sample_n (Some (sample_certified 6)) sample_world))) =
     [EvLock, EvSetSSLExpireTime [], EvSetSSLInfo [],
      EvStoreSSLCertOnDisk ''default-fake-certificate'' \<lparr>Name = [], PemSHA = ''abc''\<rparr> None,
      EvSleep 1,
      EvConfigureDynamically 0 empty_Configuration empty_Configuration None,
      EvRemoveMetrics [] [] [], EvUnlock] \<and>
   templateConfig (fst (snd (fullReconfiguration sample_env sample_n (Some (sample_certified 6)) sample_world)))
     = Some (sample_certified 6)"
  by code_simp

text \<open>
  C7 (as amended). In a reconciliation that passes the staleness check, the certificate store
  is called for the default certificate exactly when the snapshot carries one and the stored
  snapshot has none or one with another \<open>PemSHA\<close>; it is then called once, under the
  certificate's name or the placeholder name when that is empty. A snapshot whose certificate
  has the stored \<open>PemSHA\<close> triggers no call.
\<close>

theorem default_certificate_written_iff_changed:
  assumes stored: "templateConfig n = Some old" and fresh: "GeneratedTime old < GeneratedTime cfg"
  shows "filter store_event (new_events w (snd (snd (fullReconfiguration env n (Some cfg) w)))) =
           (case DefaultSSLCertificate cfg of
              None \<Rightarrow> []
            | Some cert \<Rightarrow>
                (if (case DefaultSSLCertificate old of None \<Rightarrow> True | Some oldcert \<Rightarrow> PemSHA oldcert \<noteq> PemSHA cert)
                 then [EvStoreSSLCertOnDisk (if Name cert = [] then FakeCertificateName env else Name cert) cert
                         (StoreSSLCertOnDisk env (if Name cert = [] then FakeCertificateName env else Name cert) cert)]
                 else [])) \<and>
         ((\<exists>name cert r. EvStoreSSLCertOnDisk name cert r \<in>
              set (new_events w (snd (snd (fullReconfiguration env n (Some cfg) w))))) \<longleftrightarrow>
          (\<exists>cert. DefaultSSLCertificate cfg = Some cert \<and>
             (DefaultSSLCertificate old = None \<or>
              (\<exists>oldcert. DefaultSSLCertificate old = Some oldcert \<and> PemSHA oldcert \<noteq> PemSHA cert))))"
proof -
  let ?w' = "snd (snd (fullReconfiguration env n (Some cfg) w))"
  let ?w2 = "snd (storeDefaultCertificate env old cfg (entered cfg w))"
  let ?P = "\<lambda>e. \<not> store_event e"
  let ?S = "case DefaultSSLCertificate cfg of
              None \<Rightarrow> []
            | Some cert \<Rightarrow>
                (if (case DefaultSSLCertificate old of None \<Rightarrow> True | Some oldcert \<Rightarrow> PemSHA oldcert \<noteq> PemSHA cert)
                 then [EvStoreSSLCertOnDisk (if Name cert = [] then FakeCertificateName env else Name cert) cert
                         (StoreSSLCertOnDisk env (if Name cert = [] then FakeCertificateName env else Name cert) cert)]
                 else [])"
  have "keeps False ?P ?w2 ?w'"
  proof (rule after_certificate_keeps [OF stored fresh])
    show "?P e" if "before_event e" for e using that by (cases e) simp_all
    show "?P e" if "after_event e" for e using that by (cases e) simp_all
    show "?P e" if "update_event e" for e using that by (cases e) simp_all
  qed
  then obtain rest where rest: "trace ?w' = trace ?w2 @ rest" "list_all ?P rest"
    by (auto simp: keeps_def adds_def)
  have t2: "trace ?w2 = trace w @ [EvLock, EvSetSSLExpireTime (Servers cfg), EvSetSSLInfo (Servers cfg)] @ ?S"
    by (simp add: storeDefaultCertificate_trace entered_def emit_def)
  have new: "new_events w ?w' = [EvLock, EvSetSSLExpireTime (Servers cfg), EvSetSSLInfo (Servers cfg)] @ ?S @ rest"
    using rest(1) t2 by (simp add: new_events_def)
  have fr: "filter store_event rest = []"
    using rest(2) by (simp add: list_all_iff)
  have f: "filter store_event (new_events w ?w') = ?S"
    by (simp add: new fr split: option.splits)
  have "(\<exists>name cert r. EvStoreSSLCertOnDisk name cert r \<in> set (new_events w ?w')) \<longleftrightarrow>
        (\<exists>name cert r. EvStoreSSLCertOnDisk name cert r \<in> set (filter store_event (new_events w ?w')))"
    by simp
  also have "\<dots> \<longleftrightarrow> (\<exists>cert. DefaultSSLCertificate cfg = Some cert \<and>
             (DefaultSSLCertificate old = None \<or>
              (\<exists>oldcert. DefaultSSLCertificate old = Some oldcert \<and> PemSHA oldcert \<noteq> PemSHA cert)))"
    unfolding f by (cases "DefaultSSLCertificate cfg"; cases "DefaultSSLCertificate old") auto
  finally show ?thesis using f by blast
qed

theorem default_certificate_written_iff_changed_witness:
  "templateConfig sample_n = Some (sample_snapshot 5) \<and>
   GeneratedTime (sample_snapshot 5) < GeneratedTime (sample_certified 6) \<and>
   filter store_event (new_events sample_world
      (snd (snd (fullReconfiguration sample_env sample_n (Some (sample_certified 6)) sample_world)))) =
     [EvStoreSSLCertOnDisk ''default-fake-certificate'' \<lparr>Name = [], PemSHA = ''abc''\<rparr> None]"
proof -
  have a: "templateConfig sample_n = Some (sample_snapshot 5)"
    by (simp add: sample_n_def)
  have b: "GeneratedTime (sample_snapshot 5) < GeneratedTime (sample_certified 6)"
    by (simp add: sample_snapshot_def sample_certified_def)
  show ?thesis
    using a b default_certificate_written_iff_changed [OF a b, of sample_world sample_env]
    by (simp add: sample_snapshot_def sample_certified_def sample_env_def)
qed

text \<open>
  C7 as stated fails for a stale snapshot: the snapshot of generation 3 carries a default
  certificate while the stored snapshot of generation 5 has none, and the certificate store is
  not called.
\<close>

theorem default_certificate_stale_counterexample:
  "templateConfig sample_n = Some (sample_snapshot 5) \<and>
   DefaultSSLCertificate (sample_certified 3) = Some \<lparr>Name = [], PemSHA = ''abc''\<rparr> \<and>
   DefaultSSLCertificate (sample_snapshot 5) = None \<and>
   new_events sample_world
      (snd (snd (fullReconfiguration sample_env sample_n (Some (sample_certified 3)) sample_world))) =
     [EvLock, EvSetSSLExpireTime [], EvSetSSLInfo [], EvUnlock]"
  by code_simp

text \<open>
  C8. When the reload command fails (which is only run once the configuration file has been
  written to its live path), \<open>updateConfiguration\<close> returns an error whose text is the
  command's error, a line feed and the command's output. \<open>fullReconfiguration\<close> then returns
  normally, with the stored snapshot unchanged, after incrementing the reload-error metric and
  sending the event of type \<open>Warning\<close> and reason \<open>RELOAD\<close> whose message is
  \<open>Error reloading NGINX: \<close> followed by the text of that error.
\<close>

theorem reload_failure_is_reported:
  "(EvReload out (Some err) \<in> set (new_events w (snd (snd (updateConfiguration env n cfg w)))) \<longrightarrow>
      fst (updateConfiguration env n cfg w) = Some (Error (error_text err @ [char_of (10::nat)] @ out)) \<and>
      (\<exists>content. EvWriteFile (cfgPath env) content None
           \<in> set (new_events w (snd (snd (updateConfiguration env n cfg w)))) \<and>
         files (snd (snd (updateConfiguration env n cfg w))) (cfgPath env) = Some content)) \<and>
   (EvReload out (Some err) \<in> set (new_events w (snd (snd (fullReconfiguration env n cfgp w)))) \<longrightarrow>
      fst (fullReconfiguration env n cfgp w) = Returned \<and>
      fst (snd (fullReconfiguration env n cfgp w)) = n \<and>
      EvIncReloadErrorCount \<in> set (new_events w (snd (snd (fullReconfiguration env n cfgp w)))) \<and>
      EvEventCh \<lparr>event_type = ''Warning'', event_reason = ''RELOAD'',
          event_message = ''Error reloading NGINX: '' @ error_text err @ [char_of (10::nat)] @ out\<rparr>
        \<in> set (new_events w (snd (snd (fullReconfiguration env n cfgp w)))) \<and>
      (\<exists>content. EvWriteFile (cfgPath env) content None
        \<in> set (new_events w (snd (snd (fullReconfiguration env n cfgp w))))))"
proof (intro conjI impI)
  assume h: "EvReload out (Some err) \<in> set (new_events w (snd (snd (updateConfiguration env n cfg w))))"
  obtain res cfg1 w1 where u: "updateConfiguration env n cfg w = (res, cfg1, w1)"
    by (metis prod.exhaust)
  from updateConfiguration_reload [OF u] h u
  show "fst (updateConfiguration env n cfg w) = Some (Error (error_text err @ [char_of (10::nat)] @ out))"
    and "\<exists>content. EvWriteFile (cfgPath env) content None
           \<in> set (new_events w (snd (snd (updateConfiguration env n cfg w)))) \<and>
         files (snd (snd (updateConfiguration env n cfg w))) (cfgPath env) = Some content"
    by (auto simp: reload_error_def)
next
  let ?r = "fullReconfiguration env n cfgp w"
  let ?w' = "snd (snd ?r)"
  let ?Q = "\<lambda>e. \<not> failed_reload e"
  let ?m = "newEventMessage EventTypeWarning ''RELOAD''
              (reloadErrorMessage (Error (error_text err @ [char_of (10::nat)] @ out)))"
  assume hyp: "EvReload out (Some err) \<in> set (new_events w ?w')"
  have bef: "?Q e" if "before_event e" for e using that by (cases e) simp_all
  have sto: "?Q e" if "store_event e" for e using that by (cases e) simp_all
  have "fst ?r = Returned \<and> fst (snd ?r) = n \<and> EvIncReloadErrorCount \<in> set (new_events w ?w') \<and>
        EvEventCh ?m \<in> set (new_events w ?w') \<and>
        (\<exists>content. EvWriteFile (cfgPath env) content None \<in> set (new_events w ?w'))"
  proof (cases cfgp)
    case None
    with hyp show ?thesis
      by (simp add: fullReconfiguration_nil_cfg new_events_def emit_def)
  next
    case cfgp: (Some cfg)
    show ?thesis
    proof (cases "templateConfig n")
      case None
      with hyp cfgp show ?thesis
        by (simp add: fullReconfiguration_nil_stored entered_def new_events_def emit_def)
    next
      case stored: (Some old)
      show ?thesis
      proof (cases "GeneratedTime cfg \<le> GeneratedTime old")
        case True
        with hyp cfgp stored show ?thesis
          by (simp add: fullReconfiguration_stale entered_def new_events_def emit_def)
      next
        case False
        then have fresh: "GeneratedTime old < GeneratedTime cfg" by simp
        let ?w1 = "entered cfg w"
        obtain e2 w2 where s2: "storeDefaultCertificate env old cfg ?w1 = (e2, w2)" by (metis prod.exhaust)
        obtain e3 w3 where s3: "storeDHParam env cfg w2 = (e3, w3)" by (metis prod.exhaust)
        obtain n4 w4 where s4: "reloadAndFinish env n cfg w3 = (n4, w4)" by (metis prod.exhaust)
        have k1: "keeps False ?Q w ?w1" by (rule keeps_entered) (rule bef)
        have "keeps False ?Q ?w1 (snd (storeDefaultCertificate env old cfg ?w1))"
          by (rule storeDefaultCertificate_keeps) (rule sto)
        with k1 s2 have k2: "keeps False ?Q w w2" by (auto intro: keeps_trans)
        have "keeps False ?Q w2 (snd (storeDHParam env cfg w2))"
          by (rule storeDHParam_keeps) (rule bef)
        with k2 s3 have k3: "keeps False ?Q w w3" by (auto intro: keeps_trans)
        have u: "keeps False ?Q w (emit EvUnlock v)" if "keeps False ?Q w v" for v
          using that by (rule keeps_then_emit) simp
        have full: "?r = (case e2 of Some err \<Rightarrow> (Returned, n, emit EvUnlock w2)
                    | None \<Rightarrow> (case e3 of Some err \<Rightarrow> (Returned, n, emit EvUnlock w3)
                       | None \<Rightarrow> (Returned, n4, emit EvUnlock w4)))"
          using s2 s3 s4 by (simp add: cfgp fullReconfiguration_fresh [OF stored fresh] split: option.splits)
        show ?thesis
        proof (cases "e2 = None \<and> e3 = None")
          case False
          then have "keeps False ?Q w ?w'"
            using full u [OF k2] u [OF k3] by (auto split: option.splits)
          from quiet_no_failed_reload [OF this] hyp show ?thesis by simp
        next
          case True
          then have r: "?r = (Returned, n4, emit EvUnlock w4)" using full by simp
          have k4: "keeps False (\<lambda>e. True) w3 w4"
            using reloadAndFinish_extends [of w3 env n cfg] s4 by simp
          have k34: "keeps False (\<lambda>e. True) w w4"
            by (rule keeps_trans [OF keeps_any [OF k3] k4])
          have new: "new_events w (emit EvUnlock w4) = new_events w w3 @ new_events w3 w4 @ [EvUnlock]"
            by (simp add: new_events_emit [OF k34] new_events_split [OF k3 k4])
          have "EvReload out (Some err) \<notin> set (new_events w w3)"
            by (rule quiet_no_failed_reload [OF k3])
          with hyp have "EvReload out (Some err) \<in> set (new_events w3 (snd (reloadAndFinish env n cfg w3)))"
            by (simp add: r new s4)
          from reloadAndFinish_failed_reload [OF this] show ?thesis
            by (auto simp: r new s4 reload_error_def)
        qed
      qed
    qed
  qed
  moreover have "?m = \<lparr>event_type = ''Warning'', event_reason = ''RELOAD'',
      event_message = ''Error reloading NGINX: '' @ error_text err @ [char_of (10::nat)] @ out\<rparr>"
    by (simp add: newEventMessage_def EventTypeWarning_def reloadErrorMessage_def)
  ultimately show "fst ?r = Returned" and "fst (snd ?r) = n"
    and "EvIncReloadErrorCount \<in> set (new_events w ?w')"
    and "EvEventCh \<lparr>event_type = ''Warning'', event_reason = ''RELOAD'',
          event_message = ''Error reloading NGINX: '' @ error_text err @ [char_of (10::nat)] @ out\<rparr>
        \<in> set (new_events w ?w')"
    and "\<exists>content. EvWriteFile (cfgPath env) content None \<in> set (new_events w ?w')"
    by simp_all
qed

theorem reload_failure_is_reported_witness:
  "EvReload ''bind() failed'' (Some (Error ''exit status 1''))
     \<in> set (new_events sample_world
          (snd (snd (updateConfiguration reload_failing_env sample_n (sample_snapshot 6) sample_world)))) \<and>
   EvReload ''bind() failed'' (Some (Error ''exit status 1''))
     \<in> set (new_events sample_world
          (snd (snd (fullReconfiguration reload_failing_env sample_n (Some (sample_snapshot 6)) sample_world)))) \<and>
   fst (updateConfiguration reload_failing_env sample_n (sample_snapshot 6) sample_world)
     = Some (Error (''exit status 1'' @ [char_of (10::nat)] @ ''bind() failed'')) \<and>
   fst (snd (fullReconfiguration reload_failing_env sample_n (Some (sample_snapshot 6)) sample_world)) = sample_n \<and>
   fst (fullReconfiguration reload_failing_env sample_n (Some (sample_snapshot 6)) sample_world) = Returned \<and>
   EvIncReloadErrorCount
     \<in> set (new_events sample_world
          (snd (snd (fullReconfiguration reload_failing_env sample_n (Some (sample_snapshot 6)) sample_world)))) \<and>
   EvEventCh \<lparr>event_type = ''Warning'', event_reason = ''RELOAD'',
       event_message = ''Error reloading NGINX: exit status 1'' @ [char_of (10::nat)] @ ''bind() failed''\<rparr>
     \<in> set (new_events sample_world
          (snd (snd (fullReconfiguration reload_failing_env sample_n (Some (sample_snapshot 6)) sample_world))))"
proof -
  have a: "EvReload ''bind() failed'' (Some (Error ''exit status 1''))
     \<in> set (new_events sample_world
          (snd (snd (updateConfiguration reload_failing_env sample_n (sample_snapshot 6) sample_world))))"
    by code_simp
  have b: "EvReload ''bind() failed'' (Some (Error ''exit status 1''))
     \<in> set (new_events sample_world
          (snd (snd (fullReconfiguration reload_failing_env sample_n (Some (sample_snapshot 6)) sample_world))))"
    by code_simp
  show ?thesis
    using a b reload_failure_is_reported [where out = "''bind() failed''" and err = "Error ''exit status 1''"
        and w = sample_world and env = reload_failing_env and n = sample_n and cfg = "sample_snapshot 6"
        and cfgp = "Some (sample_snapshot 6)"]
    by simp
qed




text \<open>
  C6. The dynamic push is made with the backoff \<open>Steps = 1 + DynamicConfigurationRetries\<close>,
  \<open>Duration\<close> 1 second, \<open>Factor\<close> 1.3 and \<open>Jitter\<close> 0.1. The control surface is called at
  most \<open>DynamicConfigurationRetries + 1\<close> times (not at all when that number is not positive),
  each call being the next answer of \<open>ConfigureDynamically\<close>. Every attempt but the last has
  failed, so the loop stops at the first attempt that is accepted, and the result is the
  result of the last attempt: success if it was accepted, its error otherwise (the polling
  helper's timeout error when no attempt was made). A refused attempt is followed by another
  one as long as fewer than \<open>DynamicConfigurationRetries + 1\<close> have been made, so the push
  fails only when all of them have been refused. The events of the push are the attempts and
  the sleeps in turn, beginning and ending with an attempt: the sleep after attempt \<open>k\<close>
  (counted from 0) lasts \<open>1.3 ^ k\<close> seconds plus the jitter, a random tenth of it at most,
  hence at least \<open>1.3 ^ k\<close> seconds and less than \<open>1.3 ^ k * 1.1\<close> seconds when the random
  source stays within \<open>[0, 1)\<close>.
\<close>

theorem dynamic_push_retries_with_backoff:
  "retry n = \<lparr>Steps = 1 + DynamicConfigurationRetries n, Duration = 1, Factor = 13 / 10, Jitter = 1 / 10\<rparr> \<and>
   int (length (attempts (new_events w (snd (pushDynamically env n newcfg oldcfg w)))))
     \<le> max 0 (1 + sint (DynamicConfigurationRetries n)) \<and>
   (\<forall>j < length (attempts (new_events w (snd (pushDynamically env n newcfg oldcfg w)))).
      attempts (new_events w (snd (pushDynamically env n newcfg oldcfg w))) ! j
        = ConfigureDynamically env (pushes w + j) newcfg oldcfg) \<and>
   (\<forall>j. Suc j < length (attempts (new_events w (snd (pushDynamically env n newcfg oldcfg w)))) \<longrightarrow>
      attempts (new_events w (snd (pushDynamically env n newcfg oldcfg w))) ! j \<noteq> None) \<and>
   fst (pushDynamically env n newcfg oldcfg w) =
     (if attempts (new_events w (snd (pushDynamically env n newcfg oldcfg w))) = [] then Some ErrWaitTimeout
      else last (attempts (new_events w (snd (pushDynamically env n newcfg oldcfg w))))) \<and>
   (0 \<le> sint (DynamicConfigurationRetries n) \<and> sint (DynamicConfigurationRetries n) < 2 ^ 63 - 1 \<longrightarrow>
      attempts (new_events w (snd (pushDynamically env n newcfg oldcfg w))) \<noteq> []) \<and>
   (\<forall>j < length (attempts (new_events w (snd (pushDynamically env n newcfg oldcfg w)))).
      attempts (new_events w (snd (pushDynamically env n newcfg oldcfg w))) ! j \<noteq> None \<and>
      int (Suc j) < 1 + sint (DynamicConfigurationRetries n) \<longrightarrow>
      Suc j < length (attempts (new_events w (snd (pushDynamically env n newcfg oldcfg w))))) \<and>
   (fst (pushDynamically env n newcfg oldcfg w) \<noteq> None \<and>
    attempts (new_events w (snd (pushDynamically env n newcfg oldcfg w))) \<noteq> [] \<longrightarrow>
      int (length (attempts (new_events w (snd (pushDynamically env n newcfg oldcfg w)))))
        = 1 + sint (DynamicConfigurationRetries n)) \<and>
   length (new_events w (snd (pushDynamically env n newcfg oldcfg w)))
     = 2 * length (attempts (new_events w (snd (pushDynamically env n newcfg oldcfg w)))) - 1 \<and>
   (\<forall>j < length (attempts (new_events w (snd (pushDynamically env n newcfg oldcfg w)))).
      new_events w (snd (pushDynamically env n newcfg oldcfg w)) ! (2 * j)
        = EvConfigureDynamically (pushes w + j) newcfg oldcfg
            (ConfigureDynamically env (pushes w + j) newcfg oldcfg)) \<and>
   (\<forall>k. Suc k < length (attempts (new_events w (snd (pushDynamically env n newcfg oldcfg w)))) \<longrightarrow>
      new_events w (snd (pushDynamically env n newcfg oldcfg w)) ! (2 * k + 1)
        = EvSleep ((13 / 10) ^ k +
            rand_Float64 env (nat (sint (1 + DynamicConfigurationRetries n)) - Suc k) * (1 / 10) * (13 / 10) ^ k)) \<and>
   length (sleeps (new_events w (snd (pushDynamically env n newcfg oldcfg w))))
     = length (attempts (new_events w (snd (pushDynamically env n newcfg oldcfg w)))) - 1 \<and>
   ((\<forall>i. 0 \<le> rand_Float64 env i \<and> rand_Float64 env i < 1) \<longrightarrow>
      (\<forall>k < length (sleeps (new_events w (snd (pushDynamically env n newcfg oldcfg w)))).
         (13 / 10) ^ k \<le> sleeps (new_events w (snd (pushDynamically env n newcfg oldcfg w))) ! k \<and>
         sleeps (new_events w (snd (pushDynamically env n newcfg oldcfg w))) ! k < (13 / 10) ^ k * (11 / 10)))"
proof -
  let ?r = "DynamicConfigurationRetries n"
  let ?m = "nat (sint (1 + ?r))"
  let ?res = "fst (pushDynamically env n newcfg oldcfg w)"
  let ?w' = "snd (pushDynamically env n newcfg oldcfg w)"
  from pushDynamically_spec [of env newcfg oldcfg n w]
  obtain es where spec: "push_loop_spec env newcfg oldcfg (retry n) (rand_Float64 env) ?m 1 w ?res ?w' es"
    by blast
  from spec have s1: "?w' = w\<lparr>trace := trace w @ es, pushes := pushes w + length (attempts es)\<rparr>"
    and s2: "?res = (if attempts es = [] then Some ErrWaitTimeout else last (attempts es))"
    and s3: "length (attempts es) \<le> ?m"
    and s4: "0 < ?m \<longrightarrow> attempts es \<noteq> []"
    and s5: "\<forall>j. Suc j < length (attempts es) \<longrightarrow> attempts es ! j \<noteq> None"
    and s6: "\<forall>j < length (attempts es). attempts es ! j = ConfigureDynamically env (pushes w + j) newcfg oldcfg"
    and s7: "length (sleeps es) = length (attempts es) - 1"
    and s8: "\<forall>k < length (sleeps es). sleeps es ! k
               = jittered (retry n) (rand_Float64 env (?m - Suc k)) (1 * Factor (retry n) ^ k)"
    and s9: "length es = 2 * length (attempts es) - 1"
    and s10: "\<forall>j < length (attempts es).
                es ! (2 * j) = EvConfigureDynamically (pushes w + j) newcfg oldcfg
                                 (ConfigureDynamically env (pushes w + j) newcfg oldcfg)"
    and s11: "\<forall>k. Suc k < length (attempts es) \<longrightarrow>
                es ! (2 * k + 1) = EvSleep (jittered (retry n) (rand_Float64 env (?m - Suc k))
                                             (1 * Factor (retry n) ^ k))"
    and s12: "?res \<noteq> None \<longrightarrow> length (attempts es) = ?m"
    unfolding push_loop_spec_def by blast+
  have new: "new_events w ?w' = es"
    by (subst s1) (simp add: new_events_def)
  have c1: "retry n = \<lparr>Steps = 1 + ?r, Duration = 1, Factor = 13 / 10, Jitter = 1 / 10\<rparr>"
    by (simp add: retry_def)
  have steps: "int ?m = 1 + sint ?r" if "attempts es \<noteq> []"
  proof -
    from that s3 have "0 < ?m" by (cases "attempts es") auto
    then have pos: "0 < sint (1 + ?r)" by simp
    have "sint (1 + ?r) = 1 + sint ?r" by (rule sint_succ_bound [OF pos])
    with pos show ?thesis by simp
  qed
  have c2: "int (length (attempts es)) \<le> max 0 (1 + sint ?r)"
  proof (cases "attempts es = []")
    case True
    then show ?thesis by simp
  next
    case False
    from steps [OF False] s3 show ?thesis by linarith
  qed
  have c6: "attempts es \<noteq> []" if "0 \<le> sint ?r" and "sint ?r < 2 ^ 63 - 1"
  proof -
    have "signed_take_bit 63 (1 + sint ?r) = 1 + sint ?r"
      using that by (intro signed_take_bit_int_eq_self) auto
    then have "sint (1 + ?r) = 1 + sint ?r"
      by (simp add: sint_word_ariths)
    with that s4 show ?thesis by simp
  qed
  have c10: "int (length (attempts es)) = 1 + sint ?r" if "?res \<noteq> None" and "attempts es \<noteq> []"
    using that s12 steps by simp
  have c9: "Suc j < length (attempts es)"
    if j: "j < length (attempts es)" and refused: "attempts es ! j \<noteq> None"
      and more: "int (Suc j) < 1 + sint ?r" for j
  proof (rule ccontr)
    assume "\<not> Suc j < length (attempts es)"
    with j have last: "length (attempts es) = Suc j" by simp
    then have ne: "attempts es \<noteq> []" by auto
    have "last (attempts es) = attempts es ! j"
      using last ne by (simp add: last_conv_nth)
    with s2 ne refused have "?res \<noteq> None" by simp
    from c10 [OF this ne] last more show False by simp
  qed
  have f: "Factor (retry n) = 13 / 10" by (simp add: retry_def)
  have jit: "jittered (retry n) x ((13 / 10) ^ k) = (13 / 10) ^ k + x * (1 / 10) * (13 / 10) ^ k" for x k
    by (simp add: jittered_def retry_def)
  have c11: "es ! (2 * k + 1) = EvSleep ((13 / 10) ^ k + rand_Float64 env (?m - Suc k) * (1 / 10) * (13 / 10) ^ k)"
    if "Suc k < length (attempts es)" for k
  proof -
    from s11 that have "es ! (2 * k + 1) = EvSleep (jittered (retry n) (rand_Float64 env (?m - Suc k))
                                             (1 * Factor (retry n) ^ k))" by blast
    then show ?thesis by (simp only: f mult_1 jit)
  qed
  have c8: "(13 / 10) ^ k \<le> sleeps es ! k \<and> sleeps es ! k < (13 / 10) ^ k * (11 / 10)"
    if rnd: "\<forall>i. 0 \<le> rand_Float64 env i \<and> rand_Float64 env i < 1" and k: "k < length (sleeps es)" for k
  proof -
    have "sleeps es ! k = jittered (retry n) (rand_Float64 env (?m - Suc k)) ((13 / 10) ^ k)"
      using s8 k by (simp add: f)
    moreover have "(0::rat) < (13 / 10) ^ k" by simp
    ultimately show ?thesis
      using jittered_bounds [of "rand_Float64 env (?m - Suc k)" "(13 / 10) ^ k" n] rnd by simp
  qed
  show ?thesis
    unfolding new
  proof (intro conjI)
    show "retry n = \<lparr>Steps = 1 + ?r, Duration = 1, Factor = 13 / 10, Jitter = 1 / 10\<rparr>" by (rule c1)
    show "int (length (attempts es)) \<le> max 0 (1 + sint ?r)" by (rule c2)
    show "\<forall>j < length (attempts es). attempts es ! j = ConfigureDynamically env (pushes w + j) newcfg oldcfg"
      by (rule s6)
    show "\<forall>j. Suc j < length (attempts es) \<longrightarrow> attempts es ! j \<noteq> None" by (rule s5)
    show "?res = (if attempts es = [] then Some ErrWaitTimeout else last (attempts es))" by (rule s2)
    show "0 \<le> sint ?r \<and> sint ?r < 2 ^ 63 - 1 \<longrightarrow> attempts es \<noteq> []" using c6 by blast
    show "\<forall>j < length (attempts es). attempts es ! j \<noteq> None \<and> int (Suc j) < 1 + sint ?r \<longrightarrow>
            Suc j < length (attempts es)" using c9 by blast
    show "?res \<noteq> None \<and> attempts es \<noteq> [] \<longrightarrow> int (length (attempts es)) = 1 + sint ?r" using c10 by blast
    show "length es = 2 * length (attempts es) - 1" by (rule s9)
    show "\<forall>j < length (attempts es).
            es ! (2 * j) = EvConfigureDynamically (pushes w + j) newcfg oldcfg
                             (ConfigureDynamically env (pushes w + j) newcfg oldcfg)" by (rule s10)
    show "\<forall>k. Suc k < length (attempts es) \<longrightarrow>
            es ! (2 * k + 1) = EvSleep ((13 / 10) ^ k + rand_Float64 env (?m - Suc k) * (1 / 10) * (13 / 10) ^ k)"
      using c11 by blast
    show "length (sleeps es) = length (attempts es) - 1" by (rule s7)
    show "(\<forall>i. 0 \<le> rand_Float64 env i \<and> rand_Float64 env i < 1) \<longrightarrow>
            (\<forall>k < length (sleeps es).
               (13 / 10) ^ k \<le> sleeps es ! k \<and> sleeps es ! k < (13 / 10) ^ k * (11 / 10))"
      using c8 by blast
  qed
qed

theorem dynamic_push_retries_with_backoff_witness:
  "(\<forall>i. 0 \<le> rand_Float64 busy_once_env i \<and> rand_Float64 busy_once_env i < 1) \<and>
   0 \<le> sint (DynamicConfigurationRetries sample_n) \<and>
   sint (DynamicConfigurationRetries sample_n) < 2 ^ 63 - 1 \<and>
   new_events sample_world
      (snd (pushDynamically busy_once_env sample_n empty_Configuration empty_Configuration sample_world))
     = [EvConfigureDynamically 0 empty_Configuration empty_Configuration (Some (Error ''busy'')),
        EvSleep (21 / 20),
        EvConfigureDynamically 1 empty_Configuration empty_Configuration None] \<and>
   fst (pushDynamically busy_once_env sample_n empty_Configuration empty_Configuration sample_world) = None \<and>
   new_events sample_world
      (snd (pushDynamically refusing_env sample_n empty_Configuration empty_Configuration sample_world))
     = [EvConfigureDynamically 0 empty_Configuration empty_Configuration (Some (Error ''connection refused'')),
        EvSleep 1,
        EvConfigureDynamically 1 empty_Configuration empty_Configuration (Some (Error ''connection refused'')),
        EvSleep (13 / 10),
        EvConfigureDynamically 2 empty_Configuration empty_Configuration (Some (Error ''connection refused''))] \<and>
   fst (pushDynamically refusing_env sample_n empty_Configuration empty_Configuration sample_world)
     = Some (Error ''connection refused'') \<and>
   int (length (attempts (new_events sample_world
      (snd (pushDynamically refusing_env sample_n empty_Configuration empty_Configuration sample_world)))))
     = 1 + sint (DynamicConfigurationRetries sample_n)"
proof -
  let ?es = "new_events sample_world
      (snd (pushDynamically busy_once_env sample_n empty_Configuration empty_Configuration sample_world))"
  let ?fs = "new_events sample_world
      (snd (pushDynamically refusing_env sample_n empty_Configuration empty_Configuration sample_world))"
  have a: "\<forall>i. 0 \<le> rand_Float64 busy_once_env i \<and> rand_Float64 busy_once_env i < 1"
    by (simp add: busy_once_env_def sample_env_def)
  have b: "0 \<le> sint (DynamicConfigurationRetries sample_n) \<and>
           sint (DynamicConfigurationRetries sample_n) < 2 ^ 63 - 1"
    by (simp add: sample_n_def)
  have c: "?es = [EvConfigureDynamically 0 empty_Configuration empty_Configuration (Some (Error ''busy'')),
        EvSleep (21 / 20),
        EvConfigureDynamically 1 empty_Configuration empty_Configuration None]"
    by (simp add: model_defs sample_defs busy_once_env_def eval_nat_numeral)
  have d: "?fs = [EvConfigureDynamically 0 empty_Configuration empty_Configuration (Some (Error ''connection refused'')),
        EvSleep 1,
        EvConfigureDynamically 1 empty_Configuration empty_Configuration (Some (Error ''connection refused'')),
        EvSleep (13 / 10),
        EvConfigureDynamically 2 empty_Configuration empty_Configuration (Some (Error ''connection refused''))]"
    by (simp add: model_defs sample_defs eval_nat_numeral)
  have "fst (pushDynamically busy_once_env sample_n empty_Configuration empty_Configuration sample_world) =
     (if attempts ?es = [] then Some ErrWaitTimeout else last (attempts ?es))"
    using dynamic_push_retries_with_backoff
      [of sample_n sample_world busy_once_env empty_Configuration empty_Configuration]
    by blast
  then have e: "fst (pushDynamically busy_once_env sample_n empty_Configuration empty_Configuration sample_world)
      = None"
    by (simp add: c)
  have r: "fst (pushDynamically refusing_env sample_n empty_Configuration empty_Configuration sample_world) =
       (if attempts ?fs = [] then Some ErrWaitTimeout else last (attempts ?fs)) \<and>
     (fst (pushDynamically refusing_env sample_n empty_Configuration empty_Configuration sample_world) \<noteq> None \<and>
      attempts ?fs \<noteq> [] \<longrightarrow>
        int (length (attempts ?fs)) = 1 + sint (DynamicConfigurationRetries sample_n))"
    using dynamic_push_retries_with_backoff
      [of sample_n sample_world refusing_env empty_Configuration empty_Configuration]
    by blast
  have at: "attempts ?fs = [Some (Error ''connection refused''), Some (Error ''connection refused''),
      Some (Error ''connection refused'')]"
    by (simp add: d)
  from r have f: "fst (pushDynamically refusing_env sample_n empty_Configuration empty_Configuration sample_world)
      = Some (Error ''connection refused'')"
    by (simp add: at)
  from r f have g: "int (length (attempts ?fs)) = 1 + sint (DynamicConfigurationRetries sample_n)"
    by (simp add: at)
  show ?thesis
    using a b c d e f g by (intro conjI) simp_all
qed

end
